theory Spec2Isabelle
  imports Main "HOL-Library.Sublist"
begin

section \<open>Array-job deployment of the pipeline: a model of \<open>group_run.py\<close>\<close>

text \<open>
  The theory embeds the two functions of \<open>src/group_run.py\<close>, \<open>deploy_array_job\<close>
  and \<open>main\<close>, as HOL functions over an explicit world (file system, standard input,
  and a trace of everything the program prints, logs, asks or hands to a shell).
  An exception of the Python program is a value of type \<open>error\<close>; an effectful
  function returns \<open>(None, w')\<close> when it returns normally and \<open>(Some e, w')\<close> when it
  raises \<open>e\<close>, where \<open>w'\<close> holds the effects that happened before.
\<close>

subsection \<open>Python values and exceptions\<close>

datatype error =
    TypeError | KeyError | ValueError | IndexError
  | FileNotFoundError | FileExistsError | OSError
  | KeyboardInterrupt | EOFError
  | CollaboratorError string
  | NotModelled

text \<open>
  \<open>verbose\<close> is annotated \<open>int\<close> and the command line passes an int (\<open>action='count'\<close>),
  but Python does not enforce the annotation, and line 101 applies \<open>len\<close> to it:
  the model keeps the dynamic type.
\<close>

datatype pyval = PyNone | PyInt int | PyStr string

fun py_len :: "pyval \<Rightarrow> error + nat" where
  "py_len (PyStr s) = Inr (length s)"
| "py_len (PyInt i) = Inl TypeError"
| "py_len PyNone = Inl TypeError"

text \<open>Truth values of the optional arguments: \<open>None\<close>, \<open>False\<close> and \<open>''\<close> are falsy.\<close>

fun truthy_bool :: "bool option \<Rightarrow> bool" where
  "truthy_bool None = False"
| "truthy_bool (Some b) = b"

fun truthy_str :: "string option \<Rightarrow> bool" where
  "truthy_str None = False"
| "truthy_str (Some s) = (s \<noteq> [])"

text \<open>\<open>x or y\<close> on optional strings: \<open>x\<close> when it is truthy, else \<open>y\<close>.\<close>

definition py_or :: "string option \<Rightarrow> string option \<Rightarrow> string option" where
  "py_or x y = (if truthy_str x then x else y)"

text \<open>\<open>str\<close> of an optional string, as an f-string or \<open>format\<close> renders it.\<close>

fun str_opt :: "string option \<Rightarrow> string" where
  "str_opt None = ''None''"
| "str_opt (Some s) = s"

text \<open>Paths and whole texts are strings; the names say which is meant.\<close>

type_synonym path = string
type_synonym contents = string

subsection \<open>Decimal rendering of integers\<close>

definition digit_char :: "nat \<Rightarrow> char" where
  "digit_char d = ''0123456789'' ! (d mod 10)"

fun str_nat :: "nat \<Rightarrow> string" where
  "str_nat n = (if n < 10 then [digit_char n] else str_nat (n div 10) @ [digit_char n])"

definition str_int :: "int \<Rightarrow> string" where
  "str_int i = (if i < 0 then CHR ''-'' # str_nat (nat (- i)) else str_nat (nat i))"

subsection \<open>String operations used by the renderer\<close>

definition newline :: char where
  "newline = CHR 0x0A"

text \<open>\<open>str.isspace\<close> on the ASCII range.\<close>

definition isspace :: "char \<Rightarrow> bool" where
  "isspace c = (c \<in> set [CHR 0x09, CHR 0x0A, CHR 0x0B, CHR 0x0C, CHR 0x0D,
                           CHR 0x1C, CHR 0x1D, CHR 0x1E, CHR 0x1F, CHR 0x20])"

definition strip :: "string \<Rightarrow> string" where
  "strip s = rev (dropWhile isspace (rev (dropWhile isspace s)))"

text \<open>\<open>f.readlines()\<close>: the lines of a text, each with its newline kept.\<close>

fun readlines_from :: "string \<Rightarrow> string \<Rightarrow> string list" where
  "readlines_from cur [] = (if cur = [] then [] else [cur])"
| "readlines_from cur (c # cs) =
     (if c = newline then (cur @ [c]) # readlines_from [] cs
      else readlines_from (cur @ [c]) cs)"

definition readlines :: "string \<Rightarrow> string list" where
  "readlines s = readlines_from [] s"

text \<open>\<open>sep.join(xs)\<close>.\<close>

fun join :: "string \<Rightarrow> string list \<Rightarrow> string" where
  "join sep [] = []"
| "join sep [x] = x"
| "join sep (x # y # ys) = x @ sep @ join sep (y # ys)"

text \<open>\<open>s.replace("/", "_")\<close>.\<close>

definition replace_slash :: "string \<Rightarrow> string" where
  "replace_slash s = map (\<lambda>c. if c = CHR ''/'' then CHR ''_'' else c) s"

subsection \<open>\<open>str.format\<close> with positional arguments\<close>

text \<open>
  The template file is not part of the sources, so the formatter reads any template.
  It handles what a positional template can hold: literal text, the escapes \<open>{{\<close> and
  \<open>}}\<close>, automatic fields \<open>{}\<close> and numbered fields \<open>{3}\<close>. It raises as Python does:
  \<open>ValueError\<close> for a lone brace, an unclosed field or a switch between automatic and
  manual numbering, \<open>IndexError\<close> for a field beyond the arguments. A field with a
  name, a conversion or a format specification is outside the model (\<open>NotModelled\<close>).
\<close>

datatype numbering = Unset | Automatic nat | Manual

datatype fstate = Text | Opened | Field string | Closed

definition all_digits :: "string \<Rightarrow> bool" where
  "all_digits s = list_all (\<lambda>c. c \<in> set ''0123456789'') s"

definition digit_val :: "char \<Rightarrow> nat" where
  "digit_val c = length (takeWhile (\<lambda>d. d \<noteq> c) ''0123456789'')"

definition nat_of_digits :: "string \<Rightarrow> nat" where
  "nat_of_digits s = foldl (\<lambda>n c. 10 * n + digit_val c) 0 s"

text \<open>Which argument a completed field names, and the numbering mode after it.\<close>

definition field_index :: "numbering \<Rightarrow> string \<Rightarrow> error + (nat \<times> numbering)" where
  "field_index num f =
     (if f = [] then
        (case num of
           Manual \<Rightarrow> Inl ValueError
         | Unset \<Rightarrow> Inr (0, Automatic 1)
         | Automatic n \<Rightarrow> Inr (n, Automatic (Suc n)))
      else if all_digits f then
        (case num of
           Automatic n \<Rightarrow> Inl ValueError
         | Unset \<Rightarrow> Inr (nat_of_digits f, Manual)
         | Manual \<Rightarrow> Inr (nat_of_digits f, Manual))
      else Inl NotModelled)"

fun format_from :: "string list \<Rightarrow> numbering \<Rightarrow> fstate \<Rightarrow> string \<Rightarrow> string \<Rightarrow> error + string" where
  "format_from args num Text acc [] = Inr acc"
| "format_from args num Opened acc [] = Inl ValueError"
| "format_from args num (Field f) acc [] = Inl ValueError"
| "format_from args num Closed acc [] = Inl ValueError"
| "format_from args num Text acc (c # cs) =
     (if c = CHR ''{'' then format_from args num Opened acc cs
      else if c = CHR ''}'' then format_from args num Closed acc cs
      else format_from args num Text (acc @ [c]) cs)"
| "format_from args num Opened acc (c # cs) =
     (if c = CHR ''{'' then format_from args num Text (acc @ [c]) cs
      else if c = CHR ''}'' then
        (case field_index num [] of
           Inl e \<Rightarrow> Inl e
         | Inr (i, num') \<Rightarrow>
             (if i < length args then format_from args num' Text (acc @ args ! i) cs
              else Inl IndexError))
      else format_from args num (Field [c]) acc cs)"
| "format_from args num (Field f) acc (c # cs) =
     (if c = CHR ''}'' then
        (case field_index num f of
           Inl e \<Rightarrow> Inl e
         | Inr (i, num') \<Rightarrow>
             (if i < length args then format_from args num' Text (acc @ args ! i) cs
              else Inl IndexError))
      else format_from args num (Field (f @ [c])) acc cs)"
| "format_from args num Closed acc (c # cs) =
     (if c = CHR ''}'' then format_from args num Text (acc @ [c]) cs
      else Inl ValueError)"

definition py_format :: "string \<Rightarrow> string list \<Rightarrow> error + string" where
  "py_format template args = format_from args Unset Text [] template"

subsection \<open>The world the program acts on\<close>

text \<open>
  Everything the program shows or asks is an event of the trace, in the order in which
  it happens: \<open>print\<close>, the prompt of \<open>input\<close>, the messages of \<open>conf.logger\<close>, every
  command handed to \<open>os.system\<close>, and the calls of the external \<open>Configuration\<close>
  object (\<open>conf.info\<close>, \<open>conf.init_config\<close>, \<open>conf.create_allocations\<close>).
\<close>

datatype event =
    Print string
  | Prompt string
  | LogInfo string
  | LogError string
  | System string
  | ConfInfo string string
  | InitConfig "string option"
  | CreateAllocations string string "bool option" "bool option"

text \<open>
  The file system holds the directories that exist, the text files with their content
  (as \<open>open\<close> in text mode reads it), and the paths on which the operating system
  refuses to create, write or remove (\<open>denied\<close>: no permission, a read-only volume, a
  missing parent directory). Paths are compared as the program writes them.
  \<open>stdin\<close> holds the lines the user will type.
\<close>

record world =
  dirs :: "string set"
  files :: "string \<rightharpoonup> string"
  denied :: "string set"
  stdin :: "string list"
  trace :: "event list"

definition emit :: "event \<Rightarrow> world \<Rightarrow> world" where
  "emit e w = w\<lparr>trace := trace w @ [e]\<rparr>"

definition isdir :: "string \<Rightarrow> world \<Rightarrow> bool" where
  "isdir p w = (p \<in> dirs w)"

text \<open>
  \<open>rm -rf p\<close> removes \<open>p\<close> and everything below it; where the system refuses, the
  command fails and nothing changes. \<open>os.system\<close> never raises (it returns the exit
  status, which the program ignores).
\<close>

definition rm_rf :: "string \<Rightarrow> world \<Rightarrow> world" where
  "rm_rf p w =
     (if p \<in> denied w then w
      else w\<lparr>dirs := {d \<in> dirs w. \<not> prefix p d},
              files := (\<lambda>f. if prefix p f then None else files w f)\<rparr>)"

text \<open>
  The shell is modelled for the two commands the program issues: \<open>rm -rf p\<close> acts on
  the file system (for a path \<open>p\<close> without characters special to the shell), and
  \<open>sbatch\<close> belongs to the scheduler, outside the world of this model.
\<close>

definition os_system :: "string \<Rightarrow> world \<Rightarrow> world" where
  "os_system cmd w =
     (if prefix ''rm -rf '' cmd then rm_rf (drop 7 cmd) (emit (System cmd) w)
      else emit (System cmd) w)"

definition makedirs :: "string \<Rightarrow> world \<Rightarrow> error option \<times> world" where
  "makedirs p w =
     (if p \<in> dirs w then (Some FileExistsError, w)
      else if p \<in> denied w then (Some OSError, w)
      else (None, w\<lparr>dirs := insert p (dirs w)\<rparr>))"

definition open_read :: "string \<Rightarrow> world \<Rightarrow> error + string" where
  "open_read p w = (case files w p of None \<Rightarrow> Inl FileNotFoundError | Some t \<Rightarrow> Inr t)"

definition open_write :: "string \<Rightarrow> string \<Rightarrow> world \<Rightarrow> error option \<times> world" where
  "open_write p t w =
     (if p \<in> denied w then (Some OSError, w)
      else (None, w\<lparr>files := (files w)(p \<mapsto> t)\<rparr>))"

text \<open>\<open>input(prompt)\<close>: shows the prompt and reads one line; \<open>EOFError\<close> at end of input.\<close>

definition input :: "string \<Rightarrow> world \<Rightarrow> (error + string) \<times> world" where
  "input prompt w =
     (case stdin w of
        [] \<Rightarrow> (Inl EOFError, emit (Prompt prompt) w)
      | l # ls \<Rightarrow> (Inr l, (emit (Prompt prompt) w)\<lparr>stdin := ls\<rparr>))"

subsection \<open>\<open>deploy_array_job\<close>\<close>

text \<open>
  The keyword arguments that \<open>main\<close> collects in \<open>array_job_kwargs\<close>. An argument
  that may be \<open>None\<close> is an option; \<open>bypass\<close> is the text that the f-string of line 98
  renders (the code of the switch).
\<close>

record job_flags =
  forceful :: "bool option"
  dryrun :: "bool option"
  quality :: "bool option"
  verbose :: pyval
  binpack :: "bool option"
  time_allowed :: "string option"
  memory :: "string option"
  subset :: "int option"
  repeat_id :: string
  bypass :: string
  mode :: "string option"
  new_version :: "string option"

text \<open>Lines 54 to 58: the script path, and the repeat id once the label is joined to it.\<close>

definition group_phase_sbatch :: "path \<Rightarrow> string \<Rightarrow> string option \<Rightarrow> path" where
  "group_phase_sbatch groupdir phase joblabel =
     (if \<not> truthy_str joblabel then groupdir @ ''/sbatch/'' @ phase @ ''.sbatch''
      else groupdir @ ''/sbatch/'' @ phase @ ''_'' @ str_opt joblabel @ ''.sbatch'')"

definition labelled_repeat_id :: "string \<Rightarrow> string option \<Rightarrow> string" where
  "labelled_repeat_id rid joblabel =
     (if \<not> truthy_str joblabel then rid
      else rid @ ''/'' @ str_opt joblabel)"

text \<open>Lines 61 to 65: the template, each line stripped, joined by newlines.\<close>

definition template :: string where
  "template = ''extensions/templates/phase.sbatch.template''"

definition read_template :: "world \<Rightarrow> error + string" where
  "read_template w =
     (case open_read template w of
        Inl e \<Rightarrow> Inl e
      | Inr t \<Rightarrow> Inr (join [newline] (map strip (readlines t))))"

text \<open>
  Lines 68 to 70. \<open>times\<close> is the table of default times per phase of
  \<open>padocc.core.utils\<close>, a parameter here; a phase missing from it is a \<open>KeyError\<close>.
  \<open>mem\<close> is \<open>'2G' or memory\<close>.
\<close>

definition job_time :: "(string \<rightharpoonup> string) \<Rightarrow> string \<Rightarrow> string option \<Rightarrow> string option
    \<Rightarrow> error + string" where
  "job_time tt phase allowed time =
     (case time of
        Some t \<Rightarrow> Inr t
      | None \<Rightarrow>
          (if truthy_str allowed then Inr (str_opt allowed)
           else (case tt phase of None \<Rightarrow> Inl KeyError | Some t \<Rightarrow> Inr t)))"

definition job_mem :: "string option \<Rightarrow> string" where
  "job_mem m = str_opt (py_or (Some ''2G'') m)"

text \<open>Lines 72 to 78.\<close>

definition jobname :: "string \<Rightarrow> string \<Rightarrow> string option \<Rightarrow> string" where
  "jobname groupID phase joblabel =
     (if truthy_str joblabel then str_opt joblabel @ ''_'' @ phase @ ''_'' @ groupID
      else groupID @ ''_'' @ phase)"

definition errdir :: "path \<Rightarrow> string \<Rightarrow> string \<Rightarrow> path" where
  "errdir groupdir phase rid =
     groupdir @ ''/errs/'' @ phase @ ''_'' @ replace_slash rid @ ''/''"

text \<open>Lines 80 to 82: the log directory is removed if it is there, then created.\<close>

definition reset_errdir :: "string \<Rightarrow> world \<Rightarrow> error option \<times> world" where
  "reset_errdir d w =
     makedirs d (if isdir d w then os_system (''rm -rf '' @ d) w else w)"

text \<open>Lines 86 to 95: the fourteen positional slots of the template.\<close>

definition fill_slots :: "contents \<Rightarrow> string \<Rightarrow> string \<Rightarrow> string \<Rightarrow> path \<Rightarrow> path \<Rightarrow> path
    \<Rightarrow> path \<Rightarrow> path \<Rightarrow> string \<Rightarrow> string \<Rightarrow> string \<Rightarrow> error + contents" where
  "fill_slots sbatch jname time mem errpath venvpath workdir groupdir master_script phase
       groupID rid =
     py_format sbatch
       [jname, time, mem, ''/dev/null'', errpath, venvpath, workdir, groupdir,
        master_script, phase, groupID, time, mem, rid]"

text \<open>Lines 97 to 116: the flags carried through to every job of the array.\<close>

definition carry_through :: "string \<Rightarrow> job_flags \<Rightarrow> error + string" where
  "carry_through sb0 kw =
     (let sb1 = sb0 @ '' -b '' @ bypass kw;
          sb2 = (if forceful kw \<noteq> None then sb1 @ '' -f'' else sb1)
      in case py_len (verbose kw) of
           Inl e \<Rightarrow> Inl e
         | Inr n \<Rightarrow>
             (let verb = replicate n CHR ''v'';
                  sb3 = (if verb \<noteq> [] then sb2 @ '' -'' @ verb else sb2);
                  sb4 = (if quality kw \<noteq> None then sb3 @ '' -Q'' else sb3);
                  sb5 = (if dryrun kw \<noteq> None then sb4 @ '' -d'' else sb4);
                  sb6 = (if binpack kw \<noteq> None then sb5 @ '' -A'' else sb5);
                  sb7 = (case subset kw of None \<Rightarrow> sb6 | Some n \<Rightarrow> sb6 @ '' -s '' @ str_int n);
                  sb8 = (case new_version kw of None \<Rightarrow> sb7 | Some v \<Rightarrow> sb7 @ '' -n '' @ v);
                  sb9 = (case mode kw of None \<Rightarrow> sb8 | Some m \<Rightarrow> sb8 @ '' -m '' @ m)
              in Inr sb9))"

text \<open>Lines 122 to 126: the submission of the array, printed instead under dry-run.\<close>

definition sbatch_command :: "int \<Rightarrow> string \<Rightarrow> string" where
  "sbatch_command group_len path =
     ''sbatch --array=0-'' @ str_int (group_len - 1) @ '' '' @ path"

definition submit :: "bool option \<Rightarrow> int \<Rightarrow> string \<Rightarrow> world \<Rightarrow> world" where
  "submit dry group_len path w =
     (if truthy_bool dry then
        emit (Print (sbatch_command group_len path)) (emit (LogInfo ''DRYRUN: sbatch command: '') w)
      else os_system (sbatch_command group_len path) w)"

text \<open>The function, in the order of the source.\<close>

definition deploy_array_job :: "(string \<rightharpoonup> string) \<Rightarrow> string \<Rightarrow> string \<Rightarrow> path \<Rightarrow> path
    \<Rightarrow> path \<Rightarrow> path \<Rightarrow> int \<Rightarrow> job_flags \<Rightarrow> string option \<Rightarrow> string option
    \<Rightarrow> world \<Rightarrow> error option \<times> world" where
  "deploy_array_job tt phase groupID workdir groupdir source venvpath group_len kw
       time joblabel w =
     (let path = group_phase_sbatch groupdir phase joblabel;
          rid = labelled_repeat_id (repeat_id kw) joblabel;
          master_script = source @ ''/single_run.py''
      in case read_template w of
           Inl e \<Rightarrow> (Some e, w)
         | Inr sbatch \<Rightarrow>
        (case job_time tt phase (time_allowed kw) time of
           Inl e \<Rightarrow> (Some e, w)
         | Inr tm \<Rightarrow>
        (let mem = job_mem (memory kw);
             jname = jobname groupID phase joblabel;
             edir = errdir groupdir phase rid
         in case reset_errdir edir w of
              (Some e, w1) \<Rightarrow> (Some e, w1)
            | (None, w1) \<Rightarrow>
        (case fill_slots sbatch jname tm mem (edir @ ''%A_%a.log'') venvpath workdir groupdir
                master_script phase groupID rid of
           Inl e \<Rightarrow> (Some e, w1)
         | Inr sb0 \<Rightarrow>
        (case carry_through sb0 kw of
           Inl e \<Rightarrow> (Some e, w1)
         | Inr sb \<Rightarrow>
        (case open_write path sb w1 of
           (Some e, w2) \<Rightarrow> (Some e, w2)
         | (None, w2) \<Rightarrow> (None, submit (dryrun kw) group_len path w2)))))))"

subsection \<open>\<open>main\<close>\<close>

text \<open>
  What \<open>main\<close> takes from \<open>padocc\<close>, none of it in the sources: \<open>get_attribute\<close>, the
  registry \<open>KNOWN_PHASES\<close>, the table \<open>times\<close>, and of the \<open>Configuration\<close> object
  its directory \<open>conf.dir\<close>, the planner \<open>conf.create_allocations\<close> and the project
  codes per repeat id. They are parameters; the planner and \<open>get_attribute\<close> may raise.
  The construction of the \<open>Configuration\<close> object is taken to succeed, and the calls
  of its methods leave the file system of the model alone; each call is an event.
  An allocation is the triple the planner returns: time, memory label, number of jobs.
\<close>

type_synonym alloc = "string \<times> string \<times> int"

record collab =
  get_attribute :: "string \<Rightarrow> string option \<Rightarrow> error + string"
  KNOWN_PHASES :: "string list"
  times_tbl :: "string \<rightharpoonup> string"
  conf_dir :: string
  create_allocations :: "string \<Rightarrow> string \<Rightarrow> bool option \<Rightarrow> bool option \<Rightarrow> error + alloc list"
  proj_codes :: "string \<rightharpoonup> string list"

definition confirm_prompt :: string where
  "confirm_prompt = ''Deploy the above allocated dataset jobs with these timings? (Y/N) ''"

text \<open>Lines 210 and 211: one summary line per allocation.\<close>

definition alloc_summary :: "alloc \<Rightarrow> string" where
  "alloc_summary a =
     (case a of (t, m, n) \<Rightarrow> t @ '': ('' @ m @ '') - '' @ str_int n @ '' Jobs'')"

fun print_allocations :: "alloc list \<Rightarrow> world \<Rightarrow> world" where
  "print_allocations [] w = w"
| "print_allocations (a # as) w = print_allocations as (emit (Print (alloc_summary a)) w)"

text \<open>
  Lines 217 to 222: one deployment per allocation, with the number of jobs of the
  allocation and the shared keyword arguments; an exception leaves the loop.
\<close>

fun deploy_allocations :: "(string \<rightharpoonup> string) \<Rightarrow> string \<Rightarrow> string \<Rightarrow> path \<Rightarrow> path
    \<Rightarrow> path \<Rightarrow> path \<Rightarrow> job_flags \<Rightarrow> alloc list \<Rightarrow> world \<Rightarrow> error option \<times> world" where
  "deploy_allocations tt phase groupID workdir groupdir source venvpath kw [] w = (None, w)"
| "deploy_allocations tt phase groupID workdir groupdir source venvpath kw (a # as) w =
     (case deploy_array_job tt phase groupID workdir groupdir source venvpath (snd (snd a)) kw
             None None w of
        (Some e, w') \<Rightarrow> (Some e, w')
      | (None, w') \<Rightarrow>
          deploy_allocations tt phase groupID workdir groupdir source venvpath kw as w')"

text \<open>The \<open>repr\<close> of the registry in the message for an unknown phase, for plain names.\<close>

definition phases_repr :: "string list \<Rightarrow> string" where
  "phases_repr ps = ''['' @ join '', '' (map (\<lambda>p. [CHR 0x27] @ p @ [CHR 0x27]) ps) @ '']''"

definition main :: "collab \<Rightarrow> string \<Rightarrow> string \<Rightarrow> path option \<Rightarrow> path option
    \<Rightarrow> path option \<Rightarrow> path option \<Rightarrow> bool option \<Rightarrow> job_flags
    \<Rightarrow> world \<Rightarrow> error option \<times> world" where
  "main c phase groupID workdir source venvpath input_file band_increase kw w =
     (case get_attribute c ''WORKDIR'' workdir of
        Inl e \<Rightarrow> (Some e, w)
      | Inr wd \<Rightarrow>
     (case get_attribute c ''SRCDIR'' source of
        Inl e \<Rightarrow> (Some e, w)
      | Inr src \<Rightarrow>
     (case get_attribute c ''KVENV'' venvpath of
        Inl e \<Rightarrow> (Some e, w)
      | Inr venv \<Rightarrow>
     (if phase \<notin> set (KNOWN_PHASES c) then
        (None, emit (LogError ([CHR 0x22] @ phase @ [CHR 0x22]
                  @ '' not recognised, please select from '' @ phases_repr (KNOWN_PHASES c))) w)
      else
     (let w1 = emit (ConfInfo src venv) w
      in if phase = ''init'' then
           (None, emit (InitConfig input_file)
                    (emit (LogInfo (''Running init steps as a serial process for '' @ groupID)) w1))
         else if \<not> truthy_str (time_allowed kw) then
           (case create_allocations c phase (repeat_id kw) band_increase (binpack kw) of
              Inl e \<Rightarrow>
                (Some e, emit (CreateAllocations phase (repeat_id kw) band_increase (binpack kw)) w1)
            | Inr allocations \<Rightarrow>
                (let w2 = print_allocations allocations
                            (emit (CreateAllocations phase (repeat_id kw) band_increase (binpack kw)) w1)
                 in case input confirm_prompt w2 of
                      (Inl e, w3) \<Rightarrow> (Some e, w3)
                    | (Inr deploy, w3) \<Rightarrow>
                        (if deploy \<noteq> ''Y'' then (Some KeyboardInterrupt, w3)
                         else deploy_allocations (times_tbl c) phase groupID wd (conf_dir c) src
                                venv kw allocations w3)))
         else
           (case proj_codes c (repeat_id kw) of
              None \<Rightarrow> (Some KeyError, w1)
            | Some codes \<Rightarrow>
                (let num_datasets = int (length codes);
                     w2 = emit (LogInfo (''All Datasets: '' @ str_opt (time_allowed kw)
                                 @ '' ('' @ str_int num_datasets @ '')'')) w1
                 in case input confirm_prompt w2 of
                      (Inl e, w3) \<Rightarrow> (Some e, w3)
                    | (Inr deploy, w3) \<Rightarrow>
                        (if deploy \<noteq> ''Y'' then (Some KeyboardInterrupt, w3)
                         else deploy_array_job (times_tbl c) phase groupID wd (conf_dir c) src
                                venv num_datasets kw None None w3))))))))"

subsection \<open>Observations on a trace\<close>

text \<open>The calls of the planner in a trace.\<close>

fun is_planner_call :: "event \<Rightarrow> bool" where
  "is_planner_call (CreateAllocations p r b a) = True"
| "is_planner_call e = False"

definition planner_calls :: "event list \<Rightarrow> event list" where
  "planner_calls es = filter is_planner_call es"

text \<open>The commands handed to the shell, in order.\<close>

fun shell_command :: "event \<Rightarrow> string list" where
  "shell_command (System cmd) = [cmd]"
| "shell_command e = []"

definition shell_commands :: "event list \<Rightarrow> string list" where
  "shell_commands es = concat (map shell_command es)"

text \<open>What the submission of one allocation adds to the trace (lines 122 to 126).\<close>

definition submit_events :: "bool option \<Rightarrow> path \<Rightarrow> int \<Rightarrow> event list" where
  "submit_events dry p n =
     (if truthy_bool dry
      then [LogInfo ''DRYRUN: sbatch command: '', Print (sbatch_command n p)]
      else [System (sbatch_command n p)])"

subsection \<open>A concrete group\<close>

text \<open>
  A template with the fourteen slots in the order of the call, a group directory \<open>/g\<close>
  whose log directory of an earlier run holds a log file, a user who types \<open>Y\<close>, and
  the keyword arguments of the command line \<open>group_run.py scan G1 -M 4G\<close>: the
  \<open>store_true\<close> flags that are not given are \<open>False\<close>, the subset is 1, the bypass
  code is \<open>DBSCL\<close>, the repeat id is \<open>main\<close>; the verbosity is left open. The planner
  of the group returns the two allocations of the scenario in the specification.
\<close>

definition demo_template :: string where
  "demo_template =
     ''  name={} t={} m={} o={} e={}  '' @ [newline] @
     '' env={} w={} g={}'' @ [newline] @
     ''python {} {} -G {} -t {} -M {} -r {}''"

definition demo_world :: world where
  "demo_world =
     \<lparr>dirs = {''/g/errs/scan_main/''},
      files = [template \<mapsto> demo_template, ''/g/errs/scan_main/1_0.log'' \<mapsto> ''old''],
      denied = {}, stdin = [''Y''], trace = []\<rparr>"

definition cli_flags :: "pyval \<Rightarrow> job_flags" where
  "cli_flags v =
     \<lparr>forceful = Some False, dryrun = Some False, quality = Some False, verbose = v,
      binpack = Some False, time_allowed = None, memory = Some ''4G'', subset = Some 1,
      repeat_id = ''main'', bypass = ''DBSCL'', mode = None, new_version = None\<rparr>"

definition demo_times :: "string \<rightharpoonup> string" where
  "demo_times = [''scan'' \<mapsto> ''10:00'']"

definition demo_collab :: collab where
  "demo_collab =
     \<lparr>get_attribute = (\<lambda>name v. case v of None \<Rightarrow> Inr (''/env/'' @ name) | Some x \<Rightarrow> Inr x),
      KNOWN_PHASES = [''init'', ''scan'', ''compute'', ''validate''],
      times_tbl = demo_times,
      conf_dir = ''/g'',
      create_allocations = (\<lambda>p r b a. Inr [(''01:00:00'', ''2G'', 50), (''02:00:00'', ''4G'', 10)]),
      proj_codes = [''main'' \<mapsto> [], ''scan_1'' \<mapsto> [''p1'', ''p2'', ''p3'']]\<rparr>"

section \<open>Properties\<close>

subsection \<open>The steps of \<open>deploy_array_job\<close>\<close>

lemma job_mem_2G: "job_mem m = ''2G''"
  by (simp add: job_mem_def py_or_def)

lemma os_system_rm: "os_system (''rm -rf '' @ d) w = rm_rf d (emit (System (''rm -rf '' @ d)) w)"
  by (simp add: os_system_def)

lemma reset_errdir_ok:
  assumes "reset_errdir d w = (None, w1)"
  shows "d \<notin> denied w" and "denied w1 = denied w" and "stdin w1 = stdin w" and "d \<in> dirs w1"
    and "trace w1 = trace w @ (if isdir d w then [System (''rm -rf '' @ d)] else [])"
    and "files w1 = (if isdir d w then (\<lambda>f. if prefix d f then None else files w f) else files w)"
  using assms unfolding reset_errdir_def os_system_rm
  by (auto simp: rm_rf_def emit_def makedirs_def isdir_def split: if_splits)

lemma reset_errdir_fails:
  assumes "reset_errdir d w = (Some e, w1)"
  shows "files w1 = files w" and "dirs w1 = dirs w" and "stdin w1 = stdin w"
    and "trace w1 = trace w @ (if isdir d w then [System (''rm -rf '' @ d)] else [])"
  using assms unfolding reset_errdir_def os_system_rm
  by (auto simp: rm_rf_def emit_def makedirs_def isdir_def split: if_splits)

text \<open>What a call that returns normally has done, step by step.\<close>

lemma deploy_array_job_completes:
  assumes "fst (deploy_array_job tt phase gid wd gd src venv n kw time label w) = None"
  obtains sbatch tm w1 sb0 sb where
    "read_template w = Inr sbatch"
    "job_time tt phase (time_allowed kw) time = Inr tm"
    "reset_errdir (errdir gd phase (labelled_repeat_id (repeat_id kw) label)) w = (None, w1)"
    "fill_slots sbatch (jobname gid phase label) tm ''2G''
       (errdir gd phase (labelled_repeat_id (repeat_id kw) label) @ ''%A_%a.log'')
       venv wd gd (src @ ''/single_run.py'') phase gid
       (labelled_repeat_id (repeat_id kw) label) = Inr sb0"
    "carry_through sb0 kw = Inr sb"
    "group_phase_sbatch gd phase label \<notin> denied w1"
    "snd (deploy_array_job tt phase gid wd gd src venv n kw time label w) =
       submit (dryrun kw) n (group_phase_sbatch gd phase label)
         (w1\<lparr>files := (files w1)(group_phase_sbatch gd phase label \<mapsto> sb)\<rparr>)"
  using assms
  by (auto simp: deploy_array_job_def Let_def job_mem_2G open_write_def
      split: sum.splits prod.splits option.splits if_splits)

lemma carry_through_memory: "carry_through sb (kw\<lparr>memory := x\<rparr>) = carry_through sb kw"
  by (cases "py_len (verbose kw)") (simp_all add: carry_through_def Let_def)

lemma carry_through_appends:
  assumes "carry_through sb0 kw = Inr sb"
  shows "\<exists>flags. sb = sb0 @ '' -b '' @ bypass kw @ flags"
  using assms
  by (cases "py_len (verbose kw)")
     (auto simp: carry_through_def Let_def split: option.splits)

lemma str_int_evals:
  "str_int 0 = ''0''" "str_int 1 = ''1''" "str_int (-1) = ''-1''" "str_int 9 = ''9''"
  "str_int 11 = ''11''" "str_int 12 = ''12''" "str_int 49 = ''49''" "str_int 50 = ''50''"
  "str_int 10 = ''10''" "str_int 2 = ''2''" "str_int 3 = ''3''"
  by (simp_all add: str_int_def digit_char_def)

lemma os_system_sbatch: "os_system (sbatch_command n p) w = emit (System (sbatch_command n p)) w"
  by (simp add: os_system_def sbatch_command_def)

lemma submit_trace:
  "trace (submit dry n p w) =
     trace w @ (if truthy_bool dry
                then [LogInfo ''DRYRUN: sbatch command: '', Print (sbatch_command n p)]
                else [System (sbatch_command n p)])"
  by (simp add: submit_def os_system_sbatch emit_def)

lemma submit_rest:
  "files (submit dry n p w) = files w" "dirs (submit dry n p w) = dirs w"
  "denied (submit dry n p w) = denied w" "stdin (submit dry n p w) = stdin w"
  by (simp_all add: submit_def os_system_sbatch emit_def)

lemma errdir_not_prefix_of_script:
  "\<not> prefix (errdir gd phase rid) (group_phase_sbatch gd phase label)"
  by (simp add: errdir_def group_phase_sbatch_def)

lemma deploy_array_job_trace:
  assumes "fst (deploy_array_job tt phase gid wd gd src venv n kw time label w) = None"
  shows "trace (snd (deploy_array_job tt phase gid wd gd src venv n kw time label w)) =
     trace w
     @ (if isdir (errdir gd phase (labelled_repeat_id (repeat_id kw) label)) w
        then [System (''rm -rf '' @ errdir gd phase (labelled_repeat_id (repeat_id kw) label))]
        else [])
     @ (if truthy_bool (dryrun kw)
        then [LogInfo ''DRYRUN: sbatch command: '',
              Print (sbatch_command n (group_phase_sbatch gd phase label))]
        else [System (sbatch_command n (group_phase_sbatch gd phase label))])"
proof -
  from assms obtain w1 sb where
    r: "reset_errdir (errdir gd phase (labelled_repeat_id (repeat_id kw) label)) w = (None, w1)"
    and s: "snd (deploy_array_job tt phase gid wd gd src venv n kw time label w) =
       submit (dryrun kw) n (group_phase_sbatch gd phase label)
         (w1\<lparr>files := (files w1)(group_phase_sbatch gd phase label \<mapsto> sb)\<rparr>)"
    by (rule deploy_array_job_completes)
  show ?thesis
    by (simp only: s submit_trace) (simp add: reset_errdir_ok(5)[OF r])
qed

lemma deploy_array_job_files:
  assumes "fst (deploy_array_job tt phase gid wd gd src venv n kw time label w) = None"
  shows "\<exists>sb. files (snd (deploy_array_job tt phase gid wd gd src venv n kw time label w)) =
     (if isdir (errdir gd phase (labelled_repeat_id (repeat_id kw) label)) w
      then (\<lambda>f. if prefix (errdir gd phase (labelled_repeat_id (repeat_id kw) label)) f
                 then None else files w f)
      else files w)(group_phase_sbatch gd phase label \<mapsto> sb)"
proof -
  from assms obtain w1 sb where
    r: "reset_errdir (errdir gd phase (labelled_repeat_id (repeat_id kw) label)) w = (None, w1)"
    and s: "snd (deploy_array_job tt phase gid wd gd src venv n kw time label w) =
       submit (dryrun kw) n (group_phase_sbatch gd phase label)
         (w1\<lparr>files := (files w1)(group_phase_sbatch gd phase label \<mapsto> sb)\<rparr>)"
    by (rule deploy_array_job_completes)
  show ?thesis
    by (rule exI[of _ sb], simp only: s submit_rest) (simp add: reset_errdir_ok(6)[OF r])
qed

lemma deploy_array_job_dirs:
  assumes "fst (deploy_array_job tt phase gid wd gd src venv n kw time label w) = None"
  shows "errdir gd phase (labelled_repeat_id (repeat_id kw) label)
           \<in> dirs (snd (deploy_array_job tt phase gid wd gd src venv n kw time label w))"
proof -
  from assms obtain w1 sb where
    r: "reset_errdir (errdir gd phase (labelled_repeat_id (repeat_id kw) label)) w = (None, w1)"
    and s: "snd (deploy_array_job tt phase gid wd gd src venv n kw time label w) =
       submit (dryrun kw) n (group_phase_sbatch gd phase label)
         (w1\<lparr>files := (files w1)(group_phase_sbatch gd phase label \<mapsto> sb)\<rparr>)"
    by (rule deploy_array_job_completes)
  show ?thesis
    by (simp only: s submit_rest) (simp add: reset_errdir_ok(4)[OF r])
qed

subsection \<open>The two paths of \<open>main\<close>\<close>

text \<open>Each path up to the answer of the user, and what follows the answer.\<close>

lemma print_allocations_trace:
  "print_allocations as w = w\<lparr>trace := trace w @ map (\<lambda>a. Print (alloc_summary a)) as\<rparr>"
  by (induction as arbitrary: w) (simp_all add: emit_def)

lemma main_planner_path:
  assumes "get_attribute c ''WORKDIR'' workdir = Inr wd"
    and "get_attribute c ''SRCDIR'' source = Inr src"
    and "get_attribute c ''KVENV'' venvpath = Inr venv"
    and "phase \<in> set (KNOWN_PHASES c)" and "phase \<noteq> ''init''"
    and "\<not> truthy_str (time_allowed kw)"
    and "create_allocations c phase (repeat_id kw) band_increase (binpack kw) = Inr allocs"
    and "stdin w = answer # rest"
  shows "main c phase gid workdir source venvpath input_file band_increase kw w =
     (if answer \<noteq> ''Y'' then
        (Some KeyboardInterrupt,
         w\<lparr>trace := trace w @ [ConfInfo src venv,
                      CreateAllocations phase (repeat_id kw) band_increase (binpack kw)]
                    @ map (\<lambda>a. Print (alloc_summary a)) allocs @ [Prompt confirm_prompt],
           stdin := rest\<rparr>)
      else deploy_allocations (times_tbl c) phase gid wd (conf_dir c) src venv kw allocs
        (w\<lparr>trace := trace w @ [ConfInfo src venv,
                      CreateAllocations phase (repeat_id kw) band_increase (binpack kw)]
                    @ map (\<lambda>a. Print (alloc_summary a)) allocs @ [Prompt confirm_prompt],
           stdin := rest\<rparr>))"
  using assms
  by (simp add: main_def Let_def print_allocations_trace input_def emit_def)

lemma main_explicit_path:
  assumes "get_attribute c ''WORKDIR'' workdir = Inr wd"
    and "get_attribute c ''SRCDIR'' source = Inr src"
    and "get_attribute c ''KVENV'' venvpath = Inr venv"
    and "phase \<in> set (KNOWN_PHASES c)" and "phase \<noteq> ''init''"
    and "truthy_str (time_allowed kw)"
    and "proj_codes c (repeat_id kw) = Some codes"
    and "stdin w = answer # rest"
  shows "main c phase gid workdir source venvpath input_file band_increase kw w =
     (if answer \<noteq> ''Y'' then
        (Some KeyboardInterrupt,
         w\<lparr>trace := trace w @ [ConfInfo src venv,
                      LogInfo (''All Datasets: '' @ str_opt (time_allowed kw) @ '' (''
                               @ str_int (int (length codes)) @ '')''),
                      Prompt confirm_prompt],
           stdin := rest\<rparr>)
      else deploy_array_job (times_tbl c) phase gid wd (conf_dir c) src venv
        (int (length codes)) kw None None
        (w\<lparr>trace := trace w @ [ConfInfo src venv,
                      LogInfo (''All Datasets: '' @ str_opt (time_allowed kw) @ '' (''
                               @ str_int (int (length codes)) @ '')''),
                      Prompt confirm_prompt],
           stdin := rest\<rparr>))"
  using assms
  by (simp add: main_def Let_def input_def emit_def)

lemma reset_errdir_trace:
  "trace (snd (reset_errdir d w)) =
     trace w @ (if isdir d w then [System (''rm -rf '' @ d)] else [])"
proof (cases "reset_errdir d w")
  case (Pair r w1)
  then show ?thesis
    by (cases r) (simp_all add: reset_errdir_ok(5) reset_errdir_fails(4))
qed

lemma planner_calls_append [simp]:
  "planner_calls (xs @ ys) = planner_calls xs @ planner_calls ys"
  by (simp add: planner_calls_def)

lemma deploy_array_job_planner_calls:
  "planner_calls (trace (snd (deploy_array_job tt phase gid wd gd src venv n kw time label w))) =
     planner_calls (trace w)"
proof -
  have r: "planner_calls (trace w1) = planner_calls (trace w)"
    if "reset_errdir d w = (x, w1)" for d x w1
    using reset_errdir_trace[of d w] that by (simp add: planner_calls_def)
  show ?thesis
    by (auto simp: deploy_array_job_def Let_def open_write_def submit_trace r
        split: sum.splits prod.splits option.splits if_splits)
       (simp_all add: planner_calls_def)
qed

lemma main_explicit_no_planner:
  assumes "truthy_str (time_allowed kw)"
  shows "planner_calls (trace (snd (main c phase gid workdir source venvpath input_file
                                  band_increase kw w))) = planner_calls (trace w)"
  using assms
  by (auto simp: main_def Let_def emit_def input_def deploy_array_job_planner_calls
      split: sum.splits option.splits list.splits prod.splits)
     (simp_all add: planner_calls_def)

lemma shell_commands_append [simp]:
  "shell_commands (xs @ ys) = shell_commands xs @ shell_commands ys"
  by (simp add: shell_commands_def)

subsection \<open>The loop over the allocations\<close>

text \<open>What every round reads, writes and submits.\<close>

lemma script_is_not_template: "group_phase_sbatch gd phase label \<noteq> template"
proof
  assume "group_phase_sbatch gd phase label = template"
  then have "last (group_phase_sbatch gd phase label) = last template" by simp
  then show False by (simp add: group_phase_sbatch_def template_def split: if_splits)
qed

lemma template_not_below_errdir: "\<not> prefix (errdir gd phase rid) template"
proof
  assume "prefix (errdir gd phase rid) template"
  then obtain zs where "template = errdir gd phase rid @ zs" by (auto simp: prefix_def)
  then have "template = gd @ ''/errs/'' @ (phase @ ''_'' @ replace_slash rid @ ''/'' @ zs)"
    by (simp add: errdir_def)
  then have "sublist ''/errs/'' template" by (metis sublist_appendI)
  moreover have "\<not> sublist ''/errs/'' template"
    by (simp add: template_def sublist_Cons_right)
  ultimately show False by simp
qed

lemma deploy_array_job_keeps_template:
  assumes "fst (deploy_array_job tt phase gid wd gd src venv n kw time label w) = None"
  shows "read_template (snd (deploy_array_job tt phase gid wd gd src venv n kw time label w)) =
           read_template w"
proof -
  from deploy_array_job_files[OF assms] obtain sb where
    "files (snd (deploy_array_job tt phase gid wd gd src venv n kw time label w)) =
     (if isdir (errdir gd phase (labelled_repeat_id (repeat_id kw) label)) w
      then (\<lambda>f. if prefix (errdir gd phase (labelled_repeat_id (repeat_id kw) label)) f
                 then None else files w f)
      else files w)(group_phase_sbatch gd phase label \<mapsto> sb)" ..
  then have "files (snd (deploy_array_job tt phase gid wd gd src venv n kw time label w)) template
      = files w template"
    using script_is_not_template[of gd phase label]
      template_not_below_errdir[of gd phase "labelled_repeat_id (repeat_id kw) label"]
    by auto
  then show ?thesis by (simp add: read_template_def open_read_def)
qed

lemma labelled_repeat_id_None [simp]: "labelled_repeat_id rid None = rid"
  by (simp add: labelled_repeat_id_def)

lemma deploy_planner_call:
  assumes "\<not> truthy_str (time_allowed kw)"
    and "fst (deploy_array_job tt phase gid wd gd src venv n kw None None w) = None"
  obtains sbatch tm sb0 sb where
    "read_template w = Inr sbatch" and "tt phase = Some tm"
    and "fill_slots sbatch (gid @ ''_'' @ phase) tm ''2G''
           (errdir gd phase (repeat_id kw) @ ''%A_%a.log'') venv wd gd
           (src @ ''/single_run.py'') phase gid (repeat_id kw) = Inr sb0"
    and "carry_through sb0 kw = Inr sb"
    and "files (snd (deploy_array_job tt phase gid wd gd src venv n kw None None w))
           (gd @ ''/sbatch/'' @ phase @ ''.sbatch'') = Some sb"
proof -
  from assms(2) obtain sbatch tm w1 sb0 sb where
    t: "read_template w = Inr sbatch"
    and jt: "job_time tt phase (time_allowed kw) None = Inr tm"
    and f: "fill_slots sbatch (jobname gid phase None) tm ''2G''
       (errdir gd phase (labelled_repeat_id (repeat_id kw) None) @ ''%A_%a.log'')
       venv wd gd (src @ ''/single_run.py'') phase gid
       (labelled_repeat_id (repeat_id kw) None) = Inr sb0"
    and c: "carry_through sb0 kw = Inr sb"
    and s: "snd (deploy_array_job tt phase gid wd gd src venv n kw None None w) =
       submit (dryrun kw) n (group_phase_sbatch gd phase None)
         (w1\<lparr>files := (files w1)(group_phase_sbatch gd phase None \<mapsto> sb)\<rparr>)"
    by (rule deploy_array_job_completes)
  have "tt phase = Some tm"
    using jt assms(1) by (simp add: job_time_def split: option.splits)
  moreover have "fill_slots sbatch (gid @ ''_'' @ phase) tm ''2G''
           (errdir gd phase (repeat_id kw) @ ''%A_%a.log'') venv wd gd
           (src @ ''/single_run.py'') phase gid (repeat_id kw) = Inr sb0"
    using f by (simp add: jobname_def)
  moreover have "files (snd (deploy_array_job tt phase gid wd gd src venv n kw None None w))
           (gd @ ''/sbatch/'' @ phase @ ''.sbatch'') = Some sb"
    by (simp only: s submit_rest) (simp add: group_phase_sbatch_def)
  ultimately show ?thesis using t c that by blast
qed

lemma deploy_allocations_first:
  assumes "fst (deploy_allocations tt phase gid wd gd src venv kw (a # rest) w) = None"
  shows "fst (deploy_array_job tt phase gid wd gd src venv (snd (snd a)) kw None None w) = None"
    and "deploy_allocations tt phase gid wd gd src venv kw (a # rest) w =
         deploy_allocations tt phase gid wd gd src venv kw rest
           (snd (deploy_array_job tt phase gid wd gd src venv (snd (snd a)) kw None None w))"
  using assms
  by (auto split: prod.splits option.splits)

lemma deploy_allocations_script:
  assumes "\<not> truthy_str (time_allowed kw)"
    and "read_template w = Inr sbatch" and "tt phase = Some tm"
    and "fill_slots sbatch (gid @ ''_'' @ phase) tm ''2G''
           (errdir gd phase (repeat_id kw) @ ''%A_%a.log'') venv wd gd
           (src @ ''/single_run.py'') phase gid (repeat_id kw) = Inr sb0"
    and "carry_through sb0 kw = Inr sb"
    and "files w (gd @ ''/sbatch/'' @ phase @ ''.sbatch'') = Some sb"
    and "fst (deploy_allocations tt phase gid wd gd src venv kw allocs w) = None"
  shows "files (snd (deploy_allocations tt phase gid wd gd src venv kw allocs w))
           (gd @ ''/sbatch/'' @ phase @ ''.sbatch'') = Some sb"
  using assms(2,6,7)
proof (induction allocs arbitrary: w)
  case Nil
  then show ?case by simp
next
  case (Cons a rest)
  let ?w1 = "snd (deploy_array_job tt phase gid wd gd src venv (snd (snd a)) kw None None w)"
  have one: "fst (deploy_array_job tt phase gid wd gd src venv (snd (snd a)) kw None None w) = None"
    and more: "deploy_allocations tt phase gid wd gd src venv kw (a # rest) w =
         deploy_allocations tt phase gid wd gd src venv kw rest ?w1"
    using deploy_allocations_first[OF Cons.prems(3)] by simp_all
  from assms(1) one obtain sbatch' tm' sb0' sb' where
    "read_template w = Inr sbatch'" and "tt phase = Some tm'"
    and "fill_slots sbatch' (gid @ ''_'' @ phase) tm' ''2G''
           (errdir gd phase (repeat_id kw) @ ''%A_%a.log'') venv wd gd
           (src @ ''/single_run.py'') phase gid (repeat_id kw) = Inr sb0'"
    and "carry_through sb0' kw = Inr sb'"
    and "files ?w1 (gd @ ''/sbatch/'' @ phase @ ''.sbatch'') = Some sb'"
    by (rule deploy_planner_call)
  with Cons.prems(1) assms(3,4,5) have written: "files ?w1 (gd @ ''/sbatch/'' @ phase @ ''.sbatch'') = Some sb"
    by simp
  have kept: "read_template ?w1 = Inr sbatch"
    using deploy_array_job_keeps_template[OF one] Cons.prems(1) by simp
  have "fst (deploy_allocations tt phase gid wd gd src venv kw rest ?w1) = None"
    using Cons.prems(3) more by simp
  from Cons.IH[OF kept written this] show ?case
    by (simp only: more)
qed

lemma submit_events_keep:
  "filter (\<lambda>e. e \<noteq> System (''rm -rf '' @ d)) (submit_events dry p n) = submit_events dry p n"
  by (simp add: submit_events_def sbatch_command_def)

lemma deploy_allocations_trace:
  assumes "fst (deploy_allocations tt phase gid wd gd src venv kw allocs w) = None"
  shows "\<exists>es. trace (snd (deploy_allocations tt phase gid wd gd src venv kw allocs w)) = trace w @ es
      \<and> filter (\<lambda>e. e \<noteq> System (''rm -rf '' @ errdir gd phase (repeat_id kw))) es =
          concat (map (\<lambda>a. submit_events (dryrun kw) (gd @ ''/sbatch/'' @ phase @ ''.sbatch'')
                               (snd (snd a))) allocs)"
  using assms
proof (induction allocs arbitrary: w)
  case Nil
  then show ?case by simp
next
  case (Cons a rest)
  let ?w1 = "snd (deploy_array_job tt phase gid wd gd src venv (snd (snd a)) kw None None w)"
  let ?rm = "System (''rm -rf '' @ errdir gd phase (repeat_id kw))"
  let ?p = "gd @ ''/sbatch/'' @ phase @ ''.sbatch''"
  have one: "fst (deploy_array_job tt phase gid wd gd src venv (snd (snd a)) kw None None w) = None"
    and more: "deploy_allocations tt phase gid wd gd src venv kw (a # rest) w =
         deploy_allocations tt phase gid wd gd src venv kw rest ?w1"
    using deploy_allocations_first[OF Cons.prems] by simp_all
  have t1: "trace ?w1 = trace w @ (if isdir (errdir gd phase (repeat_id kw)) w then [?rm] else [])
              @ submit_events (dryrun kw) ?p (snd (snd a))"
    using deploy_array_job_trace[OF one] by (simp add: submit_events_def group_phase_sbatch_def)
  have "fst (deploy_allocations tt phase gid wd gd src venv kw rest ?w1) = None"
    using Cons.prems more by simp
  from Cons.IH[OF this] obtain es where
    t2: "trace (snd (deploy_allocations tt phase gid wd gd src venv kw rest ?w1)) = trace ?w1 @ es"
    and f2: "filter (\<lambda>e. e \<noteq> ?rm) es =
          concat (map (\<lambda>a. submit_events (dryrun kw) ?p (snd (snd a))) rest)"
    by blast
  show ?case
  proof (intro exI conjI)
    show "trace (snd (deploy_allocations tt phase gid wd gd src venv kw (a # rest) w)) =
        trace w @ ((if isdir (errdir gd phase (repeat_id kw)) w then [?rm] else [])
              @ submit_events (dryrun kw) ?p (snd (snd a)) @ es)"
      by (simp only: more t2 t1) simp
    show "filter (\<lambda>e. e \<noteq> ?rm) ((if isdir (errdir gd phase (repeat_id kw)) w then [?rm] else [])
              @ submit_events (dryrun kw) ?p (snd (snd a)) @ es) =
          concat (map (\<lambda>a. submit_events (dryrun kw) ?p (snd (snd a))) (a # rest))"
      using f2 submit_events_keep[of "errdir gd phase (repeat_id kw)" "dryrun kw" ?p "snd (snd a)"]
      by simp
  qed
qed

text \<open>The loop takes nothing but the number of jobs from an allocation.\<close>

lemma deploy_allocations_counts_only:
  "deploy_allocations tt phase gid wd gd src venv kw (map (\<lambda>a. (t, m, snd (snd a))) allocs) w =
     deploy_allocations tt phase gid wd gd src venv kw allocs w"
  by (induction allocs arbitrary: w) (simp_all split: prod.splits option.splits)

lemma read_template_files: "files w' = files w \<Longrightarrow> read_template w' = read_template w"
  by (simp add: read_template_def open_read_def)

subsection \<open>An integer verbosity\<close>

text \<open>
  With an int for \<open>verbose\<close>, line 101 raises: no call returns normally, the trace of a
  call holds at most the removal of the old log directory, and the loop of \<open>main\<close>
  ends in its first round.
\<close>

lemma carry_through_int: "carry_through sb (kw\<lparr>verbose := PyInt v\<rparr>) = Inl TypeError"
  by (simp add: carry_through_def)

lemma deploy_array_job_int_raises:
  "fst (deploy_array_job tt phase gid wd gd src venv n (kw\<lparr>verbose := PyInt v\<rparr>) time label w)
     \<noteq> None"
proof
  assume "fst (deploy_array_job tt phase gid wd gd src venv n (kw\<lparr>verbose := PyInt v\<rparr>)
                time label w) = None"
  then obtain sb0 sb where "carry_through sb0 (kw\<lparr>verbose := PyInt v\<rparr>) = Inr sb"
    by (rule deploy_array_job_completes)
  then show False by (simp add: carry_through_int)
qed

lemma deploy_array_job_int_trace:
  "trace (snd (deploy_array_job tt phase gid wd gd src venv n (kw\<lparr>verbose := PyInt v\<rparr>)
                 time label w)) =
     trace w
     @ (if isl (read_template w) \<or> isl (job_time tt phase (time_allowed kw) time) then []
        else if isdir (errdir gd phase (labelled_repeat_id (repeat_id kw) label)) w
        then [System (''rm -rf '' @ errdir gd phase (labelled_repeat_id (repeat_id kw) label))]
        else [])"
proof -
  have r: "trace w1 = trace w @ (if isdir d w then [System (''rm -rf '' @ d)] else [])"
    if "reset_errdir d w = (x, w1)" for d x w1
    using reset_errdir_trace[of d w] that by simp
  show ?thesis
    by (auto simp: deploy_array_job_def Let_def carry_through_int r
        split: sum.splits prod.splits option.splits)
qed

lemma deploy_allocations_int_first:
  "deploy_allocations tt phase gid wd gd src venv (kw\<lparr>verbose := PyInt v\<rparr>) (a # rest) w =
     deploy_array_job tt phase gid wd gd src venv (snd (snd a)) (kw\<lparr>verbose := PyInt v\<rparr>)
       None None w"
  using deploy_array_job_int_raises[where tt=tt and phase=phase and gid=gid and wd=wd and gd=gd
      and src=src and venv=venv and n="snd (snd a)" and kw=kw and v=v and time=None
      and label=None and w=w]
  by (auto split: prod.splits option.splits)

subsection \<open>Calls that return normally\<close>

text \<open>
  What the lines after line 101 do when they are reached, that is for a \<open>verbose\<close>
  that has a length. A call that returns normally has reset the log directory, and
  its trace ends with the dry-run message and the printed command, or else with the
  command handed to the shell.
\<close>

lemma deploy_array_job_normal_return:
  assumes "fst (deploy_array_job tt phase gid wd gd src venv n kw time label w) = None"
  shows "errdir gd phase (labelled_repeat_id (repeat_id kw) label)
           \<in> dirs (snd (deploy_array_job tt phase gid wd gd src venv n kw time label w))
    \<and> (isdir (errdir gd phase (labelled_repeat_id (repeat_id kw) label)) w \<longrightarrow>
         (\<forall>f. prefix (errdir gd phase (labelled_repeat_id (repeat_id kw) label)) f \<longrightarrow>
            files (snd (deploy_array_job tt phase gid wd gd src venv n kw time label w)) f = None))
    \<and> trace (snd (deploy_array_job tt phase gid wd gd src venv n kw time label w)) =
        trace w
        @ (if isdir (errdir gd phase (labelled_repeat_id (repeat_id kw) label)) w
           then [System (''rm -rf '' @ errdir gd phase (labelled_repeat_id (repeat_id kw) label))]
           else [])
        @ (if truthy_bool (dryrun kw)
           then [LogInfo ''DRYRUN: sbatch command: '',
                 Print (''sbatch --array=0-'' @ str_int (n - 1) @ '' ''
                        @ group_phase_sbatch gd phase label)]
           else [System (''sbatch --array=0-'' @ str_int (n - 1) @ '' ''
                         @ group_phase_sbatch gd phase label)])"
proof (intro conjI)
  show "errdir gd phase (labelled_repeat_id (repeat_id kw) label)
           \<in> dirs (snd (deploy_array_job tt phase gid wd gd src venv n kw time label w))"
    using assms by (rule deploy_array_job_dirs)
next
  from deploy_array_job_files[OF assms] obtain sb where
    f: "files (snd (deploy_array_job tt phase gid wd gd src venv n kw time label w)) =
     (if isdir (errdir gd phase (labelled_repeat_id (repeat_id kw) label)) w
      then (\<lambda>f. if prefix (errdir gd phase (labelled_repeat_id (repeat_id kw) label)) f
                 then None else files w f)
      else files w)(group_phase_sbatch gd phase label \<mapsto> sb)" ..
  show "isdir (errdir gd phase (labelled_repeat_id (repeat_id kw) label)) w \<longrightarrow>
         (\<forall>f. prefix (errdir gd phase (labelled_repeat_id (repeat_id kw) label)) f \<longrightarrow>
            files (snd (deploy_array_job tt phase gid wd gd src venv n kw time label w)) f = None)"
    using errdir_not_prefix_of_script[of gd phase "labelled_repeat_id (repeat_id kw) label" label]
    by (auto simp: f)
next
  show "trace (snd (deploy_array_job tt phase gid wd gd src venv n kw time label w)) =
        trace w
        @ (if isdir (errdir gd phase (labelled_repeat_id (repeat_id kw) label)) w
           then [System (''rm -rf '' @ errdir gd phase (labelled_repeat_id (repeat_id kw) label))]
           else [])
        @ (if truthy_bool (dryrun kw)
           then [LogInfo ''DRYRUN: sbatch command: '',
                 Print (''sbatch --array=0-'' @ str_int (n - 1) @ '' ''
                        @ group_phase_sbatch gd phase label)]
           else [System (''sbatch --array=0-'' @ str_int (n - 1) @ '' ''
                         @ group_phase_sbatch gd phase label)])"
    using deploy_array_job_trace[OF assms] by (simp add: sbatch_command_def)
qed

text \<open>
  A run of \<open>main\<close> through the planner path that returns normally has printed the
  summary lines, asked, and submitted one array per allocation, always with the same
  script path; the script is the template filled with \<open>times[phase]\<close> and \<open>2G\<close>.
\<close>

lemma main_planner_path_normal_return:
  assumes "get_attribute c ''WORKDIR'' workdir = Inr wd"
    and "get_attribute c ''SRCDIR'' source = Inr src"
    and "get_attribute c ''KVENV'' venvpath = Inr venv"
    and "phase \<in> set (KNOWN_PHASES c)" and "phase \<noteq> ''init''"
    and "\<not> truthy_str (time_allowed kw)"
    and "create_allocations c phase (repeat_id kw) band_increase (binpack kw) = Inr allocs"
    and "stdin w = ''Y'' # rest"
    and "allocs \<noteq> []"
    and "fst (main c phase gid workdir source venvpath input_file band_increase kw w) = None"
  shows "\<exists>sbatch tm sb0 sb es.
      read_template w = Inr sbatch
    \<and> times_tbl c phase = Some tm
    \<and> fill_slots sbatch (gid @ ''_'' @ phase) tm ''2G''
         (errdir (conf_dir c) phase (repeat_id kw) @ ''%A_%a.log'') venv wd (conf_dir c)
         (src @ ''/single_run.py'') phase gid (repeat_id kw) = Inr sb0
    \<and> carry_through sb0 kw = Inr sb
    \<and> files (snd (main c phase gid workdir source venvpath input_file band_increase kw w))
         (conf_dir c @ ''/sbatch/'' @ phase @ ''.sbatch'') = Some sb
    \<and> trace (snd (main c phase gid workdir source venvpath input_file band_increase kw w)) =
        trace w
        @ [ConfInfo src venv, CreateAllocations phase (repeat_id kw) band_increase (binpack kw)]
        @ map (\<lambda>a. Print (alloc_summary a)) allocs
        @ [Prompt confirm_prompt]
        @ es
    \<and> filter (\<lambda>e. e \<noteq> System (''rm -rf '' @ errdir (conf_dir c) phase (repeat_id kw))) es =
        concat (map (\<lambda>a. submit_events (dryrun kw) (conf_dir c @ ''/sbatch/'' @ phase @ ''.sbatch'')
                             (snd (snd a))) allocs)"
proof -
  let ?w0 = "w\<lparr>trace := trace w @ [ConfInfo src venv,
                      CreateAllocations phase (repeat_id kw) band_increase (binpack kw)]
                    @ map (\<lambda>a. Print (alloc_summary a)) allocs @ [Prompt confirm_prompt],
               stdin := rest\<rparr>"
  let ?loop = "deploy_allocations (times_tbl c) phase gid wd (conf_dir c) src venv kw"
  let ?p = "conf_dir c @ ''/sbatch/'' @ phase @ ''.sbatch''"
  have m: "main c phase gid workdir source venvpath input_file band_increase kw w = ?loop allocs ?w0"
    using main_planner_path[OF assms(1-8), of gid input_file] by simp
  with assms(10) have fin: "fst (?loop allocs ?w0) = None" by simp
  from assms(9) obtain a more where al: "allocs = a # more" by (cases allocs) auto
  let ?w1 = "snd (deploy_array_job (times_tbl c) phase gid wd (conf_dir c) src venv (snd (snd a)) kw
                    None None ?w0)"
  have one: "fst (deploy_array_job (times_tbl c) phase gid wd (conf_dir c) src venv (snd (snd a)) kw
                    None None ?w0) = None"
    and step: "?loop (a # more) ?w0 = ?loop more ?w1"
    using deploy_allocations_first[of "times_tbl c" phase gid wd "conf_dir c" src venv kw a more ?w0]
      fin al by simp_all
  from assms(6) one obtain sbatch tm sb0 sb where
    t: "read_template ?w0 = Inr sbatch" and tm: "times_tbl c phase = Some tm"
    and f: "fill_slots sbatch (gid @ ''_'' @ phase) tm ''2G''
           (errdir (conf_dir c) phase (repeat_id kw) @ ''%A_%a.log'') venv wd (conf_dir c)
           (src @ ''/single_run.py'') phase gid (repeat_id kw) = Inr sb0"
    and ct: "carry_through sb0 kw = Inr sb"
    and w1: "files ?w1 ?p = Some sb"
    by (rule deploy_planner_call)
  have t0: "read_template w = Inr sbatch"
    using t read_template_files[of ?w0 w] by simp
  have kept: "read_template ?w1 = Inr sbatch"
    using deploy_array_job_keeps_template[OF one] t by simp
  have rest_done: "fst (?loop more ?w1) = None"
    using fin al step by simp
  have "files (snd (?loop more ?w1)) ?p = Some sb"
    using deploy_allocations_script[OF assms(6) kept tm f ct w1 rest_done] .
  then have written: "files (snd (main c phase gid workdir source venvpath input_file
                                    band_increase kw w)) ?p = Some sb"
    by (simp only: m step[folded al])
  from deploy_allocations_trace[OF fin] obtain es where
    tr: "trace (snd (?loop allocs ?w0)) = trace ?w0 @ es"
    and fl: "filter (\<lambda>e. e \<noteq> System (''rm -rf '' @ errdir (conf_dir c) phase (repeat_id kw))) es =
        concat (map (\<lambda>a. submit_events (dryrun kw) ?p (snd (snd a))) allocs)"
    by blast
  have "trace (snd (main c phase gid workdir source venvpath input_file band_increase kw w)) =
        trace w
        @ [ConfInfo src venv, CreateAllocations phase (repeat_id kw) band_increase (binpack kw)]
        @ map (\<lambda>a. Print (alloc_summary a)) allocs
        @ [Prompt confirm_prompt]
        @ es"
    by (simp only: m tr) simp
  with t0 tm f ct written fl show ?thesis by blast
qed

subsection \<open>The concrete group, step by step\<close>

lemma demo_read_template:
  "read_template demo_world =
     Inr (''name={} t={} m={} o={} e={}'' @ [newline] @ ''env={} w={} g={}'' @ [newline] @
          ''python {} {} -G {} -t {} -M {} -r {}'')"
  by (simp add: read_template_def open_read_def demo_world_def demo_template_def template_def
      readlines_def strip_def isspace_def newline_def)

text \<open>The definitions a concrete run unfolds.\<close>

lemmas eval_defs =
  deploy_array_job_def Let_def read_template_def open_read_def open_write_def template_def
  readlines_def strip_def isspace_def newline_def join.simps input_def
  job_time_def job_mem_def py_or_def jobname_def errdir_def labelled_repeat_id_def
  group_phase_sbatch_def replace_slash_def reset_errdir_def isdir_def os_system_def rm_rf_def
  emit_def makedirs_def fill_slots_def py_format_def field_index_def carry_through_def
  submit_def sbatch_command_def str_int_def digit_char_def alloc_summary_def main_def
  shell_commands_def
  demo_world_def demo_template_def demo_times_def cli_flags_def demo_collab_def

subsection \<open>The claims\<close>

text \<open>
  C1, where the code departs from the claim. The claim: each optional flag is
  appended only if its value is set. Lines 99 to 109 test \<open>is not None\<close>, and a
  \<open>store_true\<close> flag that is not given is \<open>False\<close>, not \<open>None\<close>: with the keyword
  arguments of the concrete command line, where none of \<open>-f\<close>, \<open>-Q\<close>, \<open>-d\<close> and \<open>-A\<close>
  is given, all four are appended, whatever the (sized) verbosity, and so they are
  in the script written for the concrete group.
\<close>

theorem C1_false_flags_are_appended:
  "carry_through sb (cli_flags (PyStr vs)) =
     Inr (sb @ '' -b DBSCL -f''
          @ (if vs = [] then [] else '' -'' @ replicate (length vs) CHR ''v'')
          @ '' -Q -d -A -s 1'')
   \<and> files (snd (deploy_array_job demo_times ''scan'' ''G1'' ''/w'' ''/g'' ''/src'' ''/venv'' 12
                   (cli_flags (PyStr [])) None None demo_world)) ''/g/sbatch/scan.sbatch'' =
       Some (''name=G1_scan t=10:00 m=2G o=/dev/null e=/g/errs/scan_main/%A_%a.log'' @ [newline] @
             ''env=/venv w=/w g=/g'' @ [newline] @
             ''python /src/single_run.py scan -G G1 -t 10:00 -M 2G -r main''
             @ '' -b DBSCL -f -Q -d -A -s 1'')"
proof
  show "carry_through sb (cli_flags (PyStr vs)) =
     Inr (sb @ '' -b DBSCL -f''
          @ (if vs = [] then [] else '' -'' @ replicate (length vs) CHR ''v'')
          @ '' -Q -d -A -s 1'')"
    by (simp add: carry_through_def cli_flags_def str_int_evals)
  show "files (snd (deploy_array_job demo_times ''scan'' ''G1'' ''/w'' ''/g'' ''/src'' ''/venv'' 12
                   (cli_flags (PyStr [])) None None demo_world)) ''/g/sbatch/scan.sbatch'' =
       Some (''name=G1_scan t=10:00 m=2G o=/dev/null e=/g/errs/scan_main/%A_%a.log'' @ [newline] @
             ''env=/venv w=/w g=/g'' @ [newline] @
             ''python /src/single_run.py scan -G G1 -t 10:00 -M 2G -r main''
             @ '' -b DBSCL -f -Q -d -A -s 1'')"
    by (simp add: eval_defs)
qed

text \<open>
  C2, where the code departs from the claim. The claim: the memory slot of the
  rendered script holds the memory of the job, the supplied \<open>memory\<close> argument when
  one is given. Line 70 is \<open>mem = '2G' or memory\<close>, and \<open>'2G'\<close> is truthy: a
  deployment with a memory argument is the deployment without it, and a template
  whose only slot is the memory slot is rendered to \<open>2G\<close> when the argument is \<open>4G\<close>.
\<close>

theorem C2_memory_argument_ignored:
  "deploy_array_job tt phase gid wd gd src venv n (kw\<lparr>memory := Some m\<rparr>) time label w =
     deploy_array_job tt phase gid wd gd src venv n (kw\<lparr>memory := None\<rparr>) time label w
   \<and> fill_slots ''#SBATCH --mem={2}'' jn tm (job_mem (Some ''4G'')) ep venv wd gd ms phase gid rid =
       Inr ''#SBATCH --mem=2G''"
proof
  show "deploy_array_job tt phase gid wd gd src venv n (kw\<lparr>memory := Some m\<rparr>) time label w =
     deploy_array_job tt phase gid wd gd src venv n (kw\<lparr>memory := None\<rparr>) time label w"
    by (simp add: deploy_array_job_def Let_def job_mem_2G carry_through_memory
        split: sum.splits prod.splits option.splits)
  show "fill_slots ''#SBATCH --mem={2}'' jn tm (job_mem (Some ''4G'')) ep venv wd gd ms phase gid rid =
       Inr ''#SBATCH --mem=2G''"
    by (simp add: fill_slots_def py_format_def field_index_def job_mem_2G all_digits_def
        nat_of_digits_def digit_val_def)
qed

text \<open>
  C3, where the code departs from the claim. The claim: for an integer verbosity
  \<open>v\<close> the flag \<open>-v...v\<close> with \<open>v\<close> letters is appended (none for 0), without error.
  Line 101 takes \<open>len(verbose)\<close>, and an int has no length: for every integer the
  flags are never completed, no call of \<open>deploy_array_job\<close> returns normally, and
  with the verbosity 0 of the command line the call in the concrete group raises
  \<open>TypeError\<close> after the log directory is reset, and writes no script.
\<close>

theorem C3_int_verbosity_raises:
  "carry_through sb (kw\<lparr>verbose := PyInt v\<rparr>) = Inl TypeError
   \<and> fst (deploy_array_job tt phase gid wd gd src venv n (kw\<lparr>verbose := PyInt v\<rparr>) time label w)
       \<noteq> None
   \<and> deploy_array_job demo_times ''scan'' ''G1'' ''/w'' ''/g'' ''/src'' ''/venv'' 12
        (cli_flags (PyInt 0)) None None demo_world =
       (Some TypeError,
        demo_world\<lparr>dirs := {''/g/errs/scan_main/''}, files := [template \<mapsto> demo_template],
                   trace := [System ''rm -rf /g/errs/scan_main/'']\<rparr>)"
proof (intro conjI)
  show "carry_through sb (kw\<lparr>verbose := PyInt v\<rparr>) = Inl TypeError"
    by (simp add: carry_through_def)
  show "fst (deploy_array_job tt phase gid wd gd src venv n (kw\<lparr>verbose := PyInt v\<rparr>) time label w)
       \<noteq> None"
  proof
    assume "fst (deploy_array_job tt phase gid wd gd src venv n (kw\<lparr>verbose := PyInt v\<rparr>)
                  time label w) = None"
    then obtain sb0 sb where "carry_through sb0 (kw\<lparr>verbose := PyInt v\<rparr>) = Inr sb"
      by (rule deploy_array_job_completes)
    then show False by (simp add: carry_through_def)
  qed
  show "deploy_array_job demo_times ''scan'' ''G1'' ''/w'' ''/g'' ''/src'' ''/venv'' 12
        (cli_flags (PyInt 0)) None None demo_world =
       (Some TypeError,
        demo_world\<lparr>dirs := {''/g/errs/scan_main/''}, files := [template \<mapsto> demo_template],
                   trace := [System ''rm -rf /g/errs/scan_main/'']\<rparr>)"
    by (auto simp: eval_defs fun_eq_iff)
qed




text \<open>
  C5 as stated does not hold. The claim: when the removal or creation of the log
  directory fails for one allocation, that allocation is aborted before its script
  is written, and the remaining allocations of the run are still attempted. \<open>main\<close>
  catches no exception: with two allocations and a log directory that can be neither
  removed nor created, the run ends with the \<open>FileExistsError\<close> of the first
  allocation, after one removal command, and no script is written.
\<close>

theorem C5_second_allocation_counterexample:
  "main demo_collab ''scan'' ''G1'' None None None None None (cli_flags (PyStr ''''))
      (demo_world\<lparr>denied := {''/g/errs/scan_main/''}\<rparr>) =
     (Some FileExistsError,
      demo_world\<lparr>denied := {''/g/errs/scan_main/''},
                  stdin := [],
                  trace := [ConfInfo ''/env/SRCDIR'' ''/env/KVENV'',
                            CreateAllocations ''scan'' ''main'' None (Some False),
                            Print ''01:00:00: (2G) - 50 Jobs'', Print ''02:00:00: (4G) - 10 Jobs'',
                            Prompt confirm_prompt, System ''rm -rf /g/errs/scan_main/'']\<rparr>)"
  by (simp add: eval_defs)

text \<open>
  C5 as amended: when the removal or creation of the log directory fails for one
  allocation, that allocation is aborted before its script is written, and the
  exception ends the loop over the allocations: no later allocation of the run is
  attempted. Whatever allocations follow, the loop returns the error of the reset, in
  the world the reset left: files and directories as before, and at most the removal
  command handed to the shell.
\<close>

theorem C5_reset_failure_ends_run:
  assumes "read_template w = Inr sbatch"
    and "job_time tt phase (time_allowed kw) None = Inr tm"
    and "reset_errdir (errdir gd phase (repeat_id kw)) w = (Some e, w1)"
  shows "deploy_allocations tt phase gid wd gd src venv kw (a # rest) w = (Some e, w1)
    \<and> files w1 = files w \<and> dirs w1 = dirs w
    \<and> shell_commands (trace w1) =
        shell_commands (trace w)
        @ (if isdir (errdir gd phase (repeat_id kw)) w
           then [''rm -rf '' @ errdir gd phase (repeat_id kw)] else [])"
  using assms reset_errdir_fails[OF assms(3)]
  by (simp add: deploy_array_job_def Let_def labelled_repeat_id_def shell_commands_def)

theorem C5_reset_failure_witness:
  "read_template (demo_world\<lparr>denied := {''/g/errs/scan_main/''}\<rparr>) =
      Inr (''name={} t={} m={} o={} e={}'' @ [newline] @ ''env={} w={} g={}'' @ [newline] @
           ''python {} {} -G {} -t {} -M {} -r {}'')
   \<and> reset_errdir ''/g/errs/scan_main/'' (demo_world\<lparr>denied := {''/g/errs/scan_main/''}\<rparr>) =
      (Some FileExistsError,
       demo_world\<lparr>denied := {''/g/errs/scan_main/''},
                   trace := [System ''rm -rf /g/errs/scan_main/'']\<rparr>)
   \<and> deploy_allocations demo_times ''scan'' ''G1'' ''/w'' ''/g'' ''/src'' ''/venv''
        (cli_flags (PyStr '''')) [(''01:00:00'', ''2G'', 50), (''02:00:00'', ''4G'', 10)]
        (demo_world\<lparr>denied := {''/g/errs/scan_main/''}\<rparr>) =
      (Some FileExistsError,
       demo_world\<lparr>denied := {''/g/errs/scan_main/''},
                   trace := [System ''rm -rf /g/errs/scan_main/'']\<rparr>)"
proof -
  have t: "read_template (demo_world\<lparr>denied := {''/g/errs/scan_main/''}\<rparr>) =
      Inr (''name={} t={} m={} o={} e={}'' @ [newline] @ ''env={} w={} g={}'' @ [newline] @
           ''python {} {} -G {} -t {} -M {} -r {}'')"
    by (simp add: eval_defs)
  have j: "job_time demo_times ''scan'' (time_allowed (cli_flags (PyStr ''''))) None = Inr ''10:00''"
    by (simp add: eval_defs)
  have r: "reset_errdir (errdir ''/g'' ''scan'' (repeat_id (cli_flags (PyStr ''''))))
        (demo_world\<lparr>denied := {''/g/errs/scan_main/''}\<rparr>) =
      (Some FileExistsError,
       demo_world\<lparr>denied := {''/g/errs/scan_main/''},
                   trace := [System ''rm -rf /g/errs/scan_main/'']\<rparr>)"
    by (simp add: eval_defs)
  have r': "reset_errdir ''/g/errs/scan_main/'' (demo_world\<lparr>denied := {''/g/errs/scan_main/''}\<rparr>) =
      (Some FileExistsError,
       demo_world\<lparr>denied := {''/g/errs/scan_main/''},
                   trace := [System ''rm -rf /g/errs/scan_main/'']\<rparr>)"
    by (simp add: eval_defs)
  show ?thesis
    using t r'
      C5_reset_failure_ends_run[OF t j r, of "''G1''" "''/w''" "''/src''" "''/venv''"
        "(''01:00:00'', ''2G'', 50)" "[(''02:00:00'', ''4G'', 10)]", THEN conjunct1]
    by simp
qed


text \<open>
  C6. Any answer to the confirmation other than exactly \<open>Y\<close> aborts the deployment with
  \<open>KeyboardInterrupt\<close>, in the planner path and in the path of an explicit time, with
  no script written and no command issued. For a known phase other than \<open>init\<close>, with
  the planner returning (or the project codes of the repeat id present): \<open>main\<close> raises
  \<open>KeyboardInterrupt\<close>; all it has done is the summary (or the log line) and the
  prompt, one line of input is consumed, the files and directories are as before and
  nothing was handed to the shell.
\<close>

theorem C6_declined_deploys_nothing:
  assumes "get_attribute c ''WORKDIR'' workdir = Inr wd"
    and "get_attribute c ''SRCDIR'' source = Inr src"
    and "get_attribute c ''KVENV'' venvpath = Inr venv"
    and "phase \<in> set (KNOWN_PHASES c)" and "phase \<noteq> ''init''"
    and "\<not> truthy_str (time_allowed kw) \<longrightarrow>
           create_allocations c phase (repeat_id kw) band_increase (binpack kw) = Inr allocs"
    and "truthy_str (time_allowed kw) \<longrightarrow> proj_codes c (repeat_id kw) = Some codes"
    and "stdin w = answer # rest" and "answer \<noteq> ''Y''"
  shows "main c phase gid workdir source venvpath input_file band_increase kw w =
     (Some KeyboardInterrupt,
      w\<lparr>trace := trace w @ [ConfInfo src venv]
            @ (if truthy_str (time_allowed kw)
               then [LogInfo (''All Datasets: '' @ str_opt (time_allowed kw) @ '' (''
                              @ str_int (int (length codes)) @ '')'')]
               else CreateAllocations phase (repeat_id kw) band_increase (binpack kw)
                    # map (\<lambda>a. Print (alloc_summary a)) allocs)
            @ [Prompt confirm_prompt],
         stdin := rest\<rparr>)
   \<and> files (snd (main c phase gid workdir source venvpath input_file band_increase kw w)) = files w
   \<and> dirs (snd (main c phase gid workdir source venvpath input_file band_increase kw w)) = dirs w
   \<and> shell_commands (trace (snd (main c phase gid workdir source venvpath input_file
                                   band_increase kw w))) = shell_commands (trace w)"
proof (cases "truthy_str (time_allowed kw)")
  case True
  with assms have p: "proj_codes c (repeat_id kw) = Some codes" by simp
  show ?thesis
    using True assms(9)
    by (simp add: main_explicit_path[OF assms(1-5) True p assms(8)] shell_commands_def)
next
  case False
  with assms have p: "create_allocations c phase (repeat_id kw) band_increase (binpack kw) = Inr allocs"
    by simp
  have s: "concat (map shell_command (map (\<lambda>a. Print (alloc_summary a)) as)) = []" for as
    by (induction as) simp_all
  show ?thesis
    using False assms(9)
    by (simp add: main_planner_path[OF assms(1-5) False p assms(8)] shell_commands_def s)
qed

text \<open>The answers \<open>y\<close> in the planner path and \<open>N\<close> with an explicit time.\<close>

theorem C6_declined_witness:
  "main demo_collab ''scan'' ''G1'' None None None None None (cli_flags (PyInt 0))
      (demo_world\<lparr>stdin := [''y'']\<rparr>) =
     (Some KeyboardInterrupt,
      demo_world\<lparr>trace := [ConfInfo ''/env/SRCDIR'' ''/env/KVENV'',
                            CreateAllocations ''scan'' ''main'' None (Some False),
                            Print ''01:00:00: (2G) - 50 Jobs'', Print ''02:00:00: (4G) - 10 Jobs'',
                            Prompt confirm_prompt],
                  stdin := []\<rparr>)
   \<and> main demo_collab ''scan'' ''G1'' None None None None None
       ((cli_flags (PyInt 0))\<lparr>time_allowed := Some ''30:00'', repeat_id := ''scan_1''\<rparr>)
       (demo_world\<lparr>stdin := [''N'']\<rparr>) =
     (Some KeyboardInterrupt,
      demo_world\<lparr>trace := [ConfInfo ''/env/SRCDIR'' ''/env/KVENV'',
                            LogInfo ''All Datasets: 30:00 (3)'', Prompt confirm_prompt],
                  stdin := []\<rparr>)"
proof -
  have g: "get_attribute demo_collab ''WORKDIR'' None = Inr ''/env/WORKDIR''"
    "get_attribute demo_collab ''SRCDIR'' None = Inr ''/env/SRCDIR''"
    "get_attribute demo_collab ''KVENV'' None = Inr ''/env/KVENV''"
    "''scan'' \<in> set (KNOWN_PHASES demo_collab)" "''scan'' \<noteq> ''init''"
    by (simp_all add: demo_collab_def)
  have p1: "\<not> truthy_str (time_allowed (cli_flags (PyInt 0))) \<longrightarrow>
      create_allocations demo_collab ''scan'' (repeat_id (cli_flags (PyInt 0))) None
        (binpack (cli_flags (PyInt 0))) = Inr [(''01:00:00'', ''2G'', 50), (''02:00:00'', ''4G'', 10)]"
    and p2: "truthy_str (time_allowed (cli_flags (PyInt 0))) \<longrightarrow>
      proj_codes demo_collab (repeat_id (cli_flags (PyInt 0))) = Some []"
    by (simp_all add: demo_collab_def cli_flags_def)
  have s1: "stdin (demo_world\<lparr>stdin := [''y'']\<rparr>) = ''y'' # []" and a1: "''y'' \<noteq> ''Y''"
    by simp_all
  have q1: "\<not> truthy_str (time_allowed ((cli_flags (PyInt 0))\<lparr>time_allowed := Some ''30:00'',
                  repeat_id := ''scan_1''\<rparr>)) \<longrightarrow>
      create_allocations demo_collab ''scan''
        (repeat_id ((cli_flags (PyInt 0))\<lparr>time_allowed := Some ''30:00'', repeat_id := ''scan_1''\<rparr>))
        None
        (binpack ((cli_flags (PyInt 0))\<lparr>time_allowed := Some ''30:00'', repeat_id := ''scan_1''\<rparr>))
       = Inr []"
    and q2: "truthy_str (time_allowed ((cli_flags (PyInt 0))\<lparr>time_allowed := Some ''30:00'',
                  repeat_id := ''scan_1''\<rparr>)) \<longrightarrow>
      proj_codes demo_collab
        (repeat_id ((cli_flags (PyInt 0))\<lparr>time_allowed := Some ''30:00'', repeat_id := ''scan_1''\<rparr>))
       = Some [''p1'', ''p2'', ''p3'']"
    by (simp_all add: demo_collab_def cli_flags_def)
  have s2: "stdin (demo_world\<lparr>stdin := [''N'']\<rparr>) = ''N'' # []" and a2: "''N'' \<noteq> ''Y''"
    by simp_all
  note planner = C6_declined_deploys_nothing[OF g p1 p2 s1 a1, of "''G1''" None, THEN conjunct1]
  note override = C6_declined_deploys_nothing[OF g q1 q2 s2 a2, of "''G1''" None, THEN conjunct1]
  show ?thesis
    by (simp add: planner override)
       (simp add: cli_flags_def demo_world_def alloc_summary_def str_int_evals)
qed

text \<open>
  C7. With an explicit time (a non-empty \<open>time_allowed\<close>) the planner is never called
  and exactly one deployment occurs, whose array size is the number of project codes
  of the group for the repeat id. Whatever the other arguments and the world, the
  trace of the run holds no call of the planner beyond those it started with; and
  for a known phase other than \<open>init\<close> and a user who confirms with \<open>Y\<close>, the run of
  \<open>main\<close> is the log line, the prompt, and then the one call of \<open>deploy_array_job\<close>
  with \<open>len(conf.proj_codes[repeat_id].get())\<close> as its size.
\<close>

theorem C7_time_override_single_deployment:
  assumes "truthy_str (time_allowed kw)"
  shows "planner_calls (trace (snd (main c phase gid workdir source venvpath input_file
                                  band_increase kw w))) = planner_calls (trace w)
   \<and> (get_attribute c ''WORKDIR'' workdir = Inr wd \<longrightarrow>
      get_attribute c ''SRCDIR'' source = Inr src \<longrightarrow>
      get_attribute c ''KVENV'' venvpath = Inr venv \<longrightarrow>
      phase \<in> set (KNOWN_PHASES c) \<longrightarrow> phase \<noteq> ''init'' \<longrightarrow>
      proj_codes c (repeat_id kw) = Some codes \<longrightarrow>
      stdin w = ''Y'' # rest \<longrightarrow>
      main c phase gid workdir source venvpath input_file band_increase kw w =
        deploy_array_job (times_tbl c) phase gid wd (conf_dir c) src venv (int (length codes)) kw
          None None
          (w\<lparr>trace := trace w @ [ConfInfo src venv,
                  LogInfo (''All Datasets: '' @ str_opt (time_allowed kw) @ '' (''
                           @ str_int (int (length codes)) @ '')''),
                  Prompt confirm_prompt],
             stdin := rest\<rparr>))"
proof (intro conjI impI)
  show "planner_calls (trace (snd (main c phase gid workdir source venvpath input_file
                                  band_increase kw w))) = planner_calls (trace w)"
    using assms by (rule main_explicit_no_planner)
next
  assume "get_attribute c ''WORKDIR'' workdir = Inr wd"
    and "get_attribute c ''SRCDIR'' source = Inr src"
    and "get_attribute c ''KVENV'' venvpath = Inr venv"
    and "phase \<in> set (KNOWN_PHASES c)" and "phase \<noteq> ''init''"
    and "proj_codes c (repeat_id kw) = Some codes"
    and "stdin w = ''Y'' # rest"
  then show "main c phase gid workdir source venvpath input_file band_increase kw w =
        deploy_array_job (times_tbl c) phase gid wd (conf_dir c) src venv (int (length codes)) kw
          None None
          (w\<lparr>trace := trace w @ [ConfInfo src venv,
                  LogInfo (''All Datasets: '' @ str_opt (time_allowed kw) @ '' (''
                           @ str_int (int (length codes)) @ '')''),
                  Prompt confirm_prompt],
             stdin := rest\<rparr>)"
    using assms by (simp add: main_explicit_path)
qed

text \<open>A group of three project codes for the repeat id \<open>scan_1\<close>, and the time \<open>30:00\<close>.\<close>

theorem C7_time_override_witness:
  "main demo_collab ''scan'' ''G1'' None None None None None
      ((cli_flags (PyStr ''vv''))\<lparr>time_allowed := Some ''30:00'', repeat_id := ''scan_1''\<rparr>)
      demo_world =
     deploy_array_job demo_times ''scan'' ''G1'' ''/env/WORKDIR'' ''/g'' ''/env/SRCDIR''
       ''/env/KVENV'' 3
       ((cli_flags (PyStr ''vv''))\<lparr>time_allowed := Some ''30:00'', repeat_id := ''scan_1''\<rparr>)
       None None
       (demo_world\<lparr>trace := [ConfInfo ''/env/SRCDIR'' ''/env/KVENV'',
                             LogInfo ''All Datasets: 30:00 (3)'', Prompt confirm_prompt],
                   stdin := []\<rparr>)
   \<and> planner_calls (trace (snd (main demo_collab ''scan'' ''G1'' None None None None None
         ((cli_flags (PyStr ''vv''))\<lparr>time_allowed := Some ''30:00'', repeat_id := ''scan_1''\<rparr>)
         demo_world))) = []
   \<and> shell_commands (trace (snd (main demo_collab ''scan'' ''G1'' None None None None None
         ((cli_flags (PyStr ''vv''))\<lparr>time_allowed := Some ''30:00'', repeat_id := ''scan_1''\<rparr>)
         demo_world))) = [''sbatch --array=0-2 /g/sbatch/scan.sbatch'']"
  (is "?one \<and> ?unplanned \<and> ?commands")
proof -
  have g: "get_attribute demo_collab ''WORKDIR'' None = Inr ''/env/WORKDIR''"
    "get_attribute demo_collab ''SRCDIR'' None = Inr ''/env/SRCDIR''"
    "get_attribute demo_collab ''KVENV'' None = Inr ''/env/KVENV''"
    "''scan'' \<in> set (KNOWN_PHASES demo_collab)" "''scan'' \<noteq> ''init''"
    by (simp_all add: demo_collab_def)
  have t: "truthy_str (time_allowed ((cli_flags (PyStr ''vv''))\<lparr>time_allowed := Some ''30:00'',
                  repeat_id := ''scan_1''\<rparr>))"
    and p: "proj_codes demo_collab
        (repeat_id ((cli_flags (PyStr ''vv''))\<lparr>time_allowed := Some ''30:00'', repeat_id := ''scan_1''\<rparr>))
       = Some [''p1'', ''p2'', ''p3'']"
    and s: "stdin demo_world = ''Y'' # []"
    by (simp_all add: demo_collab_def cli_flags_def demo_world_def)
  note all = C7_time_override_single_deployment[OF t, of demo_collab "''scan''" "''G1''" None
      None None None None demo_world "''/env/WORKDIR''" "''/env/SRCDIR''" "''/env/KVENV''"
      "[''p1'', ''p2'', ''p3'']" "[]"]
  note one = all[THEN conjunct2, rule_format, OF g p s]
  note unplanned = all[THEN conjunct1]
  have c: "times_tbl demo_collab = demo_times" "conf_dir demo_collab = ''/g''"
    "trace demo_world = []"
    by (simp_all add: demo_collab_def demo_world_def)
  have ?one
    using one by (simp add: c str_int_evals)
  moreover have ?unplanned
    using unplanned by (simp add: c planner_calls_def)
  moreover have ?commands
    by (simp add: eval_defs)
  ultimately show ?thesis by blast
qed


text \<open>
  C8, where the code departs from the claim. The claim: under dry-run
  \<open>deploy_array_job\<close> still removes and recreates the log directory and reports
  \<open>sbatch --array=0-{N-1} {script_path}\<close> without running it, and without dry-run
  runs that command. The reset does happen under dry-run, but for every integer
  verbosity the call then raises at line 101, before lines 122 to 126: whatever the
  arguments and the world, the trace of the call grows by nothing but the removal
  of the old log directory. In the concrete group, with dry-run, 12 tasks and the
  verbosity 0 of the command line, the call raises \<open>TypeError\<close>, the log directory
  is emptied and no command is printed; without dry-run the only command handed to
  the shell is the removal.
\<close>

theorem C8_int_verbosity_reports_nothing:
  "trace (snd (deploy_array_job tt phase gid wd gd src venv n (kw\<lparr>verbose := PyInt v\<rparr>)
                 time label w)) =
     trace w
     @ (if isl (read_template w) \<or> isl (job_time tt phase (time_allowed kw) time) then []
        else if isdir (errdir gd phase (labelled_repeat_id (repeat_id kw) label)) w
        then [System (''rm -rf '' @ errdir gd phase (labelled_repeat_id (repeat_id kw) label))]
        else [])
   \<and> deploy_array_job demo_times ''scan'' ''G1'' ''/w'' ''/g'' ''/src'' ''/venv'' 12
        ((cli_flags (PyInt 0))\<lparr>dryrun := Some True\<rparr>) None None demo_world =
       (Some TypeError,
        demo_world\<lparr>dirs := {''/g/errs/scan_main/''}, files := [template \<mapsto> demo_template],
                   trace := [System ''rm -rf /g/errs/scan_main/'']\<rparr>)
   \<and> shell_commands (trace (snd (deploy_array_job demo_times ''scan'' ''G1'' ''/w'' ''/g'' ''/src''
        ''/venv'' 12 (cli_flags (PyInt 0)) None None demo_world))) = [''rm -rf /g/errs/scan_main/'']"
proof (intro conjI)
  show "trace (snd (deploy_array_job tt phase gid wd gd src venv n (kw\<lparr>verbose := PyInt v\<rparr>)
                 time label w)) =
     trace w
     @ (if isl (read_template w) \<or> isl (job_time tt phase (time_allowed kw) time) then []
        else if isdir (errdir gd phase (labelled_repeat_id (repeat_id kw) label)) w
        then [System (''rm -rf '' @ errdir gd phase (labelled_repeat_id (repeat_id kw) label))]
        else [])"
    by (rule deploy_array_job_int_trace)
  show "deploy_array_job demo_times ''scan'' ''G1'' ''/w'' ''/g'' ''/src'' ''/venv'' 12
        ((cli_flags (PyInt 0))\<lparr>dryrun := Some True\<rparr>) None None demo_world =
       (Some TypeError,
        demo_world\<lparr>dirs := {''/g/errs/scan_main/''}, files := [template \<mapsto> demo_template],
                   trace := [System ''rm -rf /g/errs/scan_main/'']\<rparr>)"
    by (auto simp: eval_defs fun_eq_iff)
  show "shell_commands (trace (snd (deploy_array_job demo_times ''scan'' ''G1'' ''/w'' ''/g'' ''/src''
        ''/venv'' 12 (cli_flags (PyInt 0)) None None demo_world))) = [''rm -rf /g/errs/scan_main/'']"
    by (simp add: eval_defs)
qed

text \<open>
  C9 as stated does not hold. The claim: the composite repeat identifier is
  \<open>label/repeat\<close>. Line 58 is \<open>repeat_id = f'{repeat_id}/{joblabel}'\<close>: with the label
  \<open>band1\<close> and the repeat id \<open>main\<close> the composite is \<open>main/band1\<close>, which is what the
  script of the concrete group passes after \<open>-r\<close> and what names its log directory.
\<close>

theorem C9_label_order_counterexample:
  "labelled_repeat_id ''main'' (Some ''band1'') \<noteq> ''band1'' @ ''/'' @ ''main''
   \<and> labelled_repeat_id ''main'' (Some ''band1'') = ''main/band1''
   \<and> files (snd (deploy_array_job demo_times ''compute'' ''G1'' ''/w'' ''/g'' ''/src'' ''/venv'' 12
                   ((cli_flags (PyStr ''''))\<lparr>time_allowed := Some ''30:00''\<rparr>) None (Some ''band1'')
                   demo_world))
        ''/g/sbatch/compute_band1.sbatch'' =
       Some (''name=band1_compute_G1 t=30:00 m=2G o=/dev/null e=/g/errs/compute_main_band1/%A_%a.log''
             @ [newline] @ ''env=/venv w=/w g=/g'' @ [newline] @
             ''python /src/single_run.py compute -G G1 -t 30:00 -M 2G -r main/band1''
             @ '' -b DBSCL -f -Q -d -A -s 1'')"
  by (simp add: eval_defs)

text \<open>
  C9 as amended: for every non-empty job label and repeat id the composite repeat
  identifier propagated downstream is \<open>repeat/label\<close>. Whenever a labelled call
  returns normally, the script written at \<open>{groupdir}/sbatch/{phase}_{label}.sbatch\<close>
  is the template filled with \<open>repeat/label\<close> in its last slot (followed by the
  flags), and the log directory that now exists is named after the composite with
  \<open>/\<close> replaced by \<open>_\<close>.
\<close>

theorem C9_composite_is_repeat_then_label:
  assumes "label \<noteq> []"
    and "fst (deploy_array_job tt phase gid wd gd src venv n kw time (Some label) w) = None"
  shows "\<exists>sbatch tm sb0 flags.
      read_template w = Inr sbatch
    \<and> job_time tt phase (time_allowed kw) time = Inr tm
    \<and> fill_slots sbatch (label @ ''_'' @ phase @ ''_'' @ gid) tm ''2G''
         (gd @ ''/errs/'' @ phase @ ''_'' @ replace_slash (repeat_id kw @ ''/'' @ label)
             @ ''/%A_%a.log'')
         venv wd gd (src @ ''/single_run.py'') phase gid (repeat_id kw @ ''/'' @ label) = Inr sb0
    \<and> files (snd (deploy_array_job tt phase gid wd gd src venv n kw time (Some label) w))
         (gd @ ''/sbatch/'' @ phase @ ''_'' @ label @ ''.sbatch'') = Some (sb0 @ flags)
    \<and> gd @ ''/errs/'' @ phase @ ''_'' @ replace_slash (repeat_id kw @ ''/'' @ label) @ ''/''
        \<in> dirs (snd (deploy_array_job tt phase gid wd gd src venv n kw time (Some label) w))"
proof -
  from assms(2) obtain sbatch tm w1 sb0 sb where
    t: "read_template w = Inr sbatch"
    and jt: "job_time tt phase (time_allowed kw) time = Inr tm"
    and f: "fill_slots sbatch (jobname gid phase (Some label)) tm ''2G''
       (errdir gd phase (labelled_repeat_id (repeat_id kw) (Some label)) @ ''%A_%a.log'')
       venv wd gd (src @ ''/single_run.py'') phase gid
       (labelled_repeat_id (repeat_id kw) (Some label)) = Inr sb0"
    and c: "carry_through sb0 kw = Inr sb"
    and r: "reset_errdir (errdir gd phase (labelled_repeat_id (repeat_id kw) (Some label))) w = (None, w1)"
    and s: "snd (deploy_array_job tt phase gid wd gd src venv n kw time (Some label) w) =
       submit (dryrun kw) n (group_phase_sbatch gd phase (Some label))
         (w1\<lparr>files := (files w1)(group_phase_sbatch gd phase (Some label) \<mapsto> sb)\<rparr>)"
    by (rule deploy_array_job_completes)
  from carry_through_appends[OF c] obtain flags where fl: "sb = sb0 @ '' -b '' @ bypass kw @ flags" ..
  have d: "errdir gd phase (labelled_repeat_id (repeat_id kw) (Some label))
       \<in> dirs (snd (deploy_array_job tt phase gid wd gd src venv n kw time (Some label) w))"
    using assms(2) by (rule deploy_array_job_dirs)
  have "files (snd (deploy_array_job tt phase gid wd gd src venv n kw time (Some label) w))
         (gd @ ''/sbatch/'' @ phase @ ''_'' @ label @ ''.sbatch'')
       = Some (sb0 @ ('' -b '' @ bypass kw @ flags))"
    using assms(1) by (simp only: s submit_rest) (simp add: group_phase_sbatch_def fl)
  moreover have "fill_slots sbatch (label @ ''_'' @ phase @ ''_'' @ gid) tm ''2G''
         (gd @ ''/errs/'' @ phase @ ''_'' @ replace_slash (repeat_id kw @ ''/'' @ label)
             @ ''/%A_%a.log'')
         venv wd gd (src @ ''/single_run.py'') phase gid (repeat_id kw @ ''/'' @ label) = Inr sb0"
    using f assms(1) by (simp add: jobname_def errdir_def labelled_repeat_id_def)
  moreover have "gd @ ''/errs/'' @ phase @ ''_'' @ replace_slash (repeat_id kw @ ''/'' @ label) @ ''/''
        \<in> dirs (snd (deploy_array_job tt phase gid wd gd src venv n kw time (Some label) w))"
    using d assms(1) by (simp add: errdir_def labelled_repeat_id_def)
  ultimately show ?thesis using t jt by blast
qed

theorem C9_composite_witness:
  "''band1'' \<noteq> []
   \<and> fst (deploy_array_job demo_times ''compute'' ''G1'' ''/w'' ''/g'' ''/src'' ''/venv'' 12
          ((cli_flags (PyStr ''''))\<lparr>time_allowed := Some ''30:00''\<rparr>) None (Some ''band1'')
          demo_world) = None
   \<and> (\<exists>sb0 flags.
        fill_slots (''name={} t={} m={} o={} e={}'' @ [newline] @ ''env={} w={} g={}'' @ [newline] @
                    ''python {} {} -G {} -t {} -M {} -r {}'')
          ''band1_compute_G1'' ''30:00'' ''2G'' ''/g/errs/compute_main_band1/%A_%a.log''
          ''/venv'' ''/w'' ''/g'' ''/src/single_run.py'' ''compute'' ''G1'' ''main/band1'' = Inr sb0
      \<and> files (snd (deploy_array_job demo_times ''compute'' ''G1'' ''/w'' ''/g'' ''/src'' ''/venv'' 12
                  ((cli_flags (PyStr ''''))\<lparr>time_allowed := Some ''30:00''\<rparr>) None (Some ''band1'')
                  demo_world)) ''/g/sbatch/compute_band1.sbatch'' = Some (sb0 @ flags)
      \<and> ''/g/errs/compute_main_band1/''
          \<in> dirs (snd (deploy_array_job demo_times ''compute'' ''G1'' ''/w'' ''/g'' ''/src'' ''/venv'' 12
                  ((cli_flags (PyStr ''''))\<lparr>time_allowed := Some ''30:00''\<rparr>) None (Some ''band1'')
                  demo_world)))"
proof -
  have a: "''band1'' \<noteq> []" by simp
  have h: "fst (deploy_array_job demo_times ''compute'' ''G1'' ''/w'' ''/g'' ''/src'' ''/venv'' 12
          ((cli_flags (PyStr ''''))\<lparr>time_allowed := Some ''30:00''\<rparr>) None (Some ''band1'')
          demo_world) = None"
    by (simp add: eval_defs)
  from C9_composite_is_repeat_then_label[OF a h] obtain sbatch tm sb0 flags where
    "read_template demo_world = Inr sbatch"
    "job_time demo_times ''compute''
       (time_allowed ((cli_flags (PyStr ''''))\<lparr>time_allowed := Some ''30:00''\<rparr>)) None = Inr tm"
    "fill_slots sbatch (''band1'' @ ''_'' @ ''compute'' @ ''_'' @ ''G1'') tm ''2G''
         (''/g'' @ ''/errs/'' @ ''compute'' @ ''_''
           @ replace_slash (repeat_id ((cli_flags (PyStr ''''))\<lparr>time_allowed := Some ''30:00''\<rparr>)
                             @ ''/'' @ ''band1'')
           @ ''/%A_%a.log'')
         ''/venv'' ''/w'' ''/g'' (''/src'' @ ''/single_run.py'') ''compute'' ''G1''
         (repeat_id ((cli_flags (PyStr ''''))\<lparr>time_allowed := Some ''30:00''\<rparr>) @ ''/'' @ ''band1'')
       = Inr sb0"
    "files (snd (deploy_array_job demo_times ''compute'' ''G1'' ''/w'' ''/g'' ''/src'' ''/venv'' 12
                  ((cli_flags (PyStr ''''))\<lparr>time_allowed := Some ''30:00''\<rparr>) None (Some ''band1'')
                  demo_world))
        (''/g'' @ ''/sbatch/'' @ ''compute'' @ ''_'' @ ''band1'' @ ''.sbatch'') = Some (sb0 @ flags)"
    "''/g'' @ ''/errs/'' @ ''compute'' @ ''_''
        @ replace_slash (repeat_id ((cli_flags (PyStr ''''))\<lparr>time_allowed := Some ''30:00''\<rparr>)
                          @ ''/'' @ ''band1'') @ ''/''
       \<in> dirs (snd (deploy_array_job demo_times ''compute'' ''G1'' ''/w'' ''/g'' ''/src'' ''/venv'' 12
                  ((cli_flags (PyStr ''''))\<lparr>time_allowed := Some ''30:00''\<rparr>) None (Some ''band1'')
                  demo_world))"
    by blast
  then show ?thesis
    using h
    by (auto simp: demo_read_template[simplified] cli_flags_def replace_slash_def newline_def
        job_time_def)
qed


text \<open>
  C10, where the code departs from the claim. The claim: in the planner path the
  time estimate and the memory label of an allocation are only printed, every
  script is rendered with the default time of the phase, and all allocations are
  written to \<open>{groupdir}/sbatch/{phase}.sbatch\<close>, each overwriting the one before.
  The first part holds: the loop of \<open>main\<close> takes nothing but the number of jobs
  from an allocation. But for every integer verbosity the loop is its first call of
  \<open>deploy_array_job\<close>, which raises: no later allocation is reached. In the concrete
  group, with the verbosity 0 of the command line and the two allocations of the
  planner, \<open>main\<close> prints the summary, asks, removes the log directory and raises
  \<open>TypeError\<close>; no script is written and nothing is submitted.
\<close>

theorem C10_int_verbosity_stops_at_first_allocation:
  "deploy_allocations tt phase gid wd gd src venv kw (map (\<lambda>a. (t, m, snd (snd a))) allocs) w =
     deploy_allocations tt phase gid wd gd src venv kw allocs w
   \<and> deploy_allocations tt phase gid wd gd src venv (kw\<lparr>verbose := PyInt v\<rparr>) (a # rest) w =
       deploy_array_job tt phase gid wd gd src venv (snd (snd a)) (kw\<lparr>verbose := PyInt v\<rparr>)
         None None w
   \<and> fst (deploy_allocations tt phase gid wd gd src venv (kw\<lparr>verbose := PyInt v\<rparr>) (a # rest) w)
       \<noteq> None
   \<and> main demo_collab ''scan'' ''G1'' None None None None None (cli_flags (PyInt 0)) demo_world =
       (Some TypeError,
        demo_world\<lparr>dirs := {''/g/errs/scan_main/''}, files := [template \<mapsto> demo_template],
                   stdin := [],
                   trace := [ConfInfo ''/env/SRCDIR'' ''/env/KVENV'',
                             CreateAllocations ''scan'' ''main'' None (Some False),
                             Print ''01:00:00: (2G) - 50 Jobs'', Print ''02:00:00: (4G) - 10 Jobs'',
                             Prompt confirm_prompt, System ''rm -rf /g/errs/scan_main/'']\<rparr>)"
proof (intro conjI)
  show "deploy_allocations tt phase gid wd gd src venv kw (map (\<lambda>a. (t, m, snd (snd a))) allocs) w =
     deploy_allocations tt phase gid wd gd src venv kw allocs w"
    by (rule deploy_allocations_counts_only)
  show first: "deploy_allocations tt phase gid wd gd src venv (kw\<lparr>verbose := PyInt v\<rparr>) (a # rest) w =
       deploy_array_job tt phase gid wd gd src venv (snd (snd a)) (kw\<lparr>verbose := PyInt v\<rparr>)
         None None w"
    by (rule deploy_allocations_int_first)
  show "fst (deploy_allocations tt phase gid wd gd src venv (kw\<lparr>verbose := PyInt v\<rparr>) (a # rest) w)
       \<noteq> None"
    by (simp only: first deploy_array_job_int_raises not_False_eq_True)
  show "main demo_collab ''scan'' ''G1'' None None None None None (cli_flags (PyInt 0)) demo_world =
       (Some TypeError,
        demo_world\<lparr>dirs := {''/g/errs/scan_main/''}, files := [template \<mapsto> demo_template],
                   stdin := [],
                   trace := [ConfInfo ''/env/SRCDIR'' ''/env/KVENV'',
                             CreateAllocations ''scan'' ''main'' None (Some False),
                             Print ''01:00:00: (2G) - 50 Jobs'', Print ''02:00:00: (4G) - 10 Jobs'',
                             Prompt confirm_prompt, System ''rm -rf /g/errs/scan_main/'']\<rparr>)"
    by (auto simp: eval_defs fun_eq_iff)
qed

end
